theory Spec2Isabelle
  imports Complex_Main
begin

section \<open>Values, errors and the ambient state\<close>

text \<open>
  The statistical core of \<^verbatim>\<open>bootstrapContrast.py\<close>: \<^verbatim>\<open>bootstrap\<close>,
  \<^verbatim>\<open>bootstrap_contrast\<close> and the numeric part of \<^verbatim>\<open>pairedcontrast\<close>.

  A numpy \<^verbatim>\<open>float64\<close> is a finite value or NaN. Every arithmetic operation that the
  module itself performs rounds its exact result with a rounding function \<open>rnd\<close>, which
  the library environment supplies; the theorems assume of it only what IEEE 754
  round-to-nearest guarantees (\<open>rounding\<close> below). Infinities and overflow are not
  represented.
\<close>

datatype npfloat = Fin real | NaN

text \<open>
  The exceptions that can leave the modelled functions. \<open>InvalidInputError\<close> is the
  class the specification names; the module defines no such class and no equation below
  produces it. \<open>UserWarning\<close> is a warning turned into an exception by an \<^verbatim>\<open>error\<close>
  filter; \<open>LinAlgError\<close> can come from the kernel density fit of the smoothed bootstrap.
\<close>

datatype error =
    InvalidInputError
  | ValueError
  | IndexError
  | NameError
  | SystemExit
  | UserWarning
  | LinAlgError

text \<open>
  The action that the process-wide warnings filter takes for a warning raised by this
  module. Line 15 of the module, \<^verbatim>\<open>warnings.filterwarnings("ignore")\<close>, runs at import
  and installs \<open>Ignore\<close>; a caller can replace it afterwards.
\<close>

datatype action = Ignore | Always | Error

definition module_filter :: action where
  "module_filter = Ignore"

text \<open>
  The state outside the functions: the entropy that the random generators read (a stream
  of raw draws and a cursor into it), the warnings filter, and the warnings that have
  reached the caller so far.
\<close>

record world =
  entropy :: "nat \<Rightarrow> nat"
  cursor :: nat
  wfilter :: action
  shown :: "string list"

text \<open>
  The library functions the module calls, as far as their results cannot be computed here:
  floating-point rounding; \<^verbatim>\<open>np.mean\<close>, whose order of summation, intermediate rounding
  and overflow are numpy's own; the kernel density estimate of seaborn's smoothed
  bootstrap; the adjusted tail probabilities inside \<^verbatim>\<open>bca\<close> (normal quantiles and the
  jackknife acceleration); and the scipy tests, each of which returns the pair (statistic,
  p-value). For the Mann-Whitney test the environment gives the one-sided p-value (that of
  the smaller tail) and says whether the default of the installed scipy,
  \<^verbatim>\<open>mannwhitneyu(x, y)\<close> without \<^verbatim>\<open>alternative\<close>, is the two-sided test: the releases
  of the module's time return the one-sided value by default, later ones the two-sided one.
\<close>

record env =
  rnd :: "real \<Rightarrow> real"
  np_mean :: "npfloat list \<Rightarrow> npfloat"
  randint_checks_empty :: bool
  kde_fit :: "npfloat list \<Rightarrow> error option"
  kde_resample :: "npfloat list \<Rightarrow> nat \<Rightarrow> (nat \<Rightarrow> nat) \<Rightarrow> nat \<Rightarrow> npfloat list \<times> nat"
  bca_avals :: "npfloat list \<Rightarrow> npfloat \<times> npfloat \<Rightarrow> npfloat list \<Rightarrow>
                (npfloat list \<Rightarrow> npfloat) \<Rightarrow> npfloat \<Rightarrow> int \<Rightarrow> error + (npfloat \<times> npfloat)"
  ttest_ind :: "npfloat list \<Rightarrow> npfloat list \<Rightarrow> error + (npfloat \<times> npfloat)"
  mw_one_sided :: "npfloat list \<Rightarrow> npfloat list \<Rightarrow> error + (npfloat \<times> npfloat)"
  mw_default_two_sided :: bool
  ttest_1samp :: "npfloat list \<Rightarrow> npfloat \<Rightarrow> error + (npfloat \<times> npfloat)"

text \<open>
  What round-to-nearest on doubles guarantees: it is monotone, odd, and exact on the
  integers up to \<open>2 ^ 53\<close> and on \<open>1 / 2\<close>.
\<close>

definition rounding :: "(real \<Rightarrow> real) \<Rightarrow> bool" where
  "rounding r \<longleftrightarrow>
     (\<forall>x y. x \<le> y \<longrightarrow> r x \<le> r y) \<and>
     (\<forall>x. r (- x) = - r x) \<and>
     (\<forall>n::int. \<bar>n\<bar> \<le> 2 ^ 53 \<longrightarrow> r (real_of_int n) = real_of_int n) \<and>
     r (1 / 2) = 1 / 2"


subsection \<open>Floating-point operations\<close>

definition fsub :: "env \<Rightarrow> npfloat \<Rightarrow> npfloat \<Rightarrow> npfloat" where
  "fsub E a b = (case (a, b) of (Fin x, Fin y) \<Rightarrow> Fin (rnd E (x - y)) | _ \<Rightarrow> NaN)"

definition fmul :: "env \<Rightarrow> npfloat \<Rightarrow> npfloat \<Rightarrow> npfloat" where
  "fmul E a b = (case (a, b) of (Fin x, Fin y) \<Rightarrow> Fin (rnd E (x * y)) | _ \<Rightarrow> NaN)"

definition fhalf :: "env \<Rightarrow> npfloat \<Rightarrow> npfloat" where
  "fhalf E a = (case a of Fin x \<Rightarrow> Fin (rnd E (x / 2)) | NaN \<Rightarrow> NaN)"

definition fneg :: "npfloat \<Rightarrow> npfloat" where
  "fneg a = (case a of Fin x \<Rightarrow> Fin (- x) | NaN \<Rightarrow> NaN)"

definition of_pyint :: "env \<Rightarrow> int \<Rightarrow> npfloat" where
  "of_pyint E i = Fin (rnd E (real_of_int i))"

text \<open>\<^verbatim>\<open>np.round\<close>: to the nearest integer, a tie to the even one; the result is a float.\<close>

definition round_half_even :: "real \<Rightarrow> int" where
  "round_half_even x =
     (let f = \<lfloor>x\<rfloor>; d = x - real_of_int f
      in if d < 1 / 2 then f else if 1 / 2 < d then f + 1 else if even f then f else f + 1)"

definition np_round :: "npfloat \<Rightarrow> npfloat" where
  "np_round a = (case a of Fin x \<Rightarrow> Fin (real_of_int (round_half_even x)) | NaN \<Rightarrow> NaN)"

definition nan_to_num :: "npfloat \<Rightarrow> npfloat" where
  "nan_to_num a = (case a of Fin x \<Rightarrow> Fin x | NaN \<Rightarrow> Fin 0)"

text \<open>
  \<^verbatim>\<open>.astype('int')\<close> truncates towards zero. On NaN the cast yields the least 64-bit
  integer; the module always calls \<^verbatim>\<open>nan_to_num\<close> first.
\<close>

definition astype_int :: "npfloat \<Rightarrow> int" where
  "astype_int a = (case a of Fin x \<Rightarrow> (if 0 \<le> x then \<lfloor>x\<rfloor> else \<lceil>x\<rceil>) | NaN \<Rightarrow> - (2 ^ 63))"

text \<open>\<^verbatim>\<open>if statfunction == None: statfunction = np.mean\<close>.\<close>

definition default_mean :: "env \<Rightarrow> (npfloat list \<Rightarrow> npfloat) option \<Rightarrow> npfloat list \<Rightarrow> npfloat" where
  "default_mean E statfunction = (case statfunction of None \<Rightarrow> np_mean E | Some f \<Rightarrow> f)"

text \<open>
  \<^verbatim>\<open>mannwhitneyu(x, y)\<close> with the library's defaults. Where the default is two-sided,
  scipy doubles the one-sided p-value and clips the product into \<open>[0, 1]\<close>. The statistic
  differs between the two modes as well; the module does not read it.
\<close>

definition np_clip01 :: "npfloat \<Rightarrow> npfloat" where
  "np_clip01 a = (case a of Fin x \<Rightarrow> Fin (max 0 (min 1 x)) | NaN \<Rightarrow> NaN)"

definition mannwhitneyu :: "env \<Rightarrow> npfloat list \<Rightarrow> npfloat list \<Rightarrow> error + (npfloat \<times> npfloat)" where
  "mannwhitneyu E x y =
     (case mw_one_sided E x y of
        Inl e \<Rightarrow> Inl e
      | Inr (u, p) \<Rightarrow>
          Inr (u, if mw_default_two_sided E then np_clip01 (fmul E p (Fin 2)) else p))"

text \<open>
  \<^verbatim>\<open>ndarray.sort()\<close> orders ascending and puts NaN last: the order below, with
  \<open>sort\<close> of the list library.
\<close>

instantiation npfloat :: linorder
begin

definition less_eq_npfloat :: "npfloat \<Rightarrow> npfloat \<Rightarrow> bool" where
  "a \<le> b \<longleftrightarrow>
     (case b of NaN \<Rightarrow> True | Fin y \<Rightarrow> (case a of NaN \<Rightarrow> False | Fin x \<Rightarrow> x \<le> y))"

definition less_npfloat :: "npfloat \<Rightarrow> npfloat \<Rightarrow> bool" where
  "a < b \<longleftrightarrow> a \<le> b \<and> \<not> b \<le> (a::npfloat)"

instance
proof
  fix x y z :: npfloat
  show "(x < y) = (x \<le> y \<and> \<not> y \<le> x)"
    by (simp add: less_npfloat_def)
  show "x \<le> x"
    by (simp add: less_eq_npfloat_def split: npfloat.splits)
  show "x \<le> y \<Longrightarrow> y \<le> z \<Longrightarrow> x \<le> z"
    by (auto simp: less_eq_npfloat_def split: npfloat.splits)
  show "x \<le> y \<Longrightarrow> y \<le> x \<Longrightarrow> x = y"
    by (auto simp: less_eq_npfloat_def split: npfloat.splits)
  show "x \<le> y \<or> y \<le> x"
    by (auto simp: less_eq_npfloat_def split: npfloat.splits)
qed

end

subsection \<open>Array access\<close>

text \<open>
  Indexing a Python list or a numpy array with an integer: a negative index counts from
  the end, anything outside \<open>[-n, n)\<close> raises \<^verbatim>\<open>IndexError\<close>.
\<close>

definition np_index :: "'a list \<Rightarrow> int \<Rightarrow> error + 'a" where
  "np_index xs i =
     (if 0 \<le> i \<and> i < int (length xs) then Inr (xs ! nat i)
      else if i < 0 \<and> - int (length xs) \<le> i then Inr (xs ! nat (int (length xs) + i))
      else Inl IndexError)"

text \<open>\<^verbatim>\<open>a.take(resampler, axis=0)\<close>.\<close>

fun np_take :: "'a list \<Rightarrow> int list \<Rightarrow> error + 'a list" where
  "np_take a [] = Inr []"
| "np_take a (i # is) =
     (case np_index a i of
        Inl e \<Rightarrow> Inl e
      | Inr v \<Rightarrow> (case np_take a is of Inl e \<Rightarrow> Inl e | Inr vs \<Rightarrow> Inr (v # vs)))"

text \<open>
  Elementwise subtraction of two one-dimensional arrays, with numpy's broadcasting of a
  length-one operand; other length mismatches raise \<^verbatim>\<open>ValueError\<close>.
\<close>

definition np_sub :: "env \<Rightarrow> npfloat list \<Rightarrow> npfloat list \<Rightarrow> error + npfloat list" where
  "np_sub E a b =
     (if length a = length b then Inr (map2 (fsub E) a b)
      else if length b = 1 then Inr (map (\<lambda>x. fsub E x (hd b)) a)
      else if length a = 1 then Inr (map (\<lambda>y. fsub E (hd a) y) b)
      else Inl ValueError)"

section \<open>The resampler\<close>

text \<open>
  \<^verbatim>\<open>RandomState.randint(low, high, size)\<close>: \<open>sz\<close> integers of \<open>[low, high)\<close>, each a raw
  draw of the entropy stream reduced into the range. An empty range raises
  \<^verbatim>\<open>ValueError\<close> ("low >= high"); numpy releases differ on whether that check also
  applies to a draw of size 0, which is what \<open>randint_checks_empty\<close> records.
\<close>

definition randint :: "env \<Rightarrow> int \<Rightarrow> int \<Rightarrow> nat \<Rightarrow> world \<Rightarrow> error + (int list \<times> world)" where
  "randint E low high sz w =
     (if high \<le> low \<and> (randint_checks_empty E \<or> sz \<noteq> 0) then Inl ValueError
      else Inr (map (\<lambda>k. low + int (entropy w (cursor w + k) mod nat (high - low))) [0..<sz],
                w\<lparr>cursor := cursor w + sz\<rparr>))"

text \<open>
  \<^verbatim>\<open>seaborn.algorithms.bootstrap(data, func=..., n_boot=..., smooth=...)\<close>: \<open>n_boot\<close>
  times, draw \<open>len(data)\<close> positions with replacement, take the resample and apply
  \<open>func\<close> to it. With \<open>smooth\<close> the resample comes from a kernel density estimate
  fitted once before the loop; \<open>kde_resample\<close> reads the entropy from a cursor on and
  returns the resample of the requested length with the new cursor.
\<close>

definition resample_draw :: "env \<Rightarrow> npfloat list \<Rightarrow> world \<Rightarrow> error + (npfloat list \<times> world)" where
  "resample_draw E a w =
     (case randint E 0 (int (length a)) (length a) w of
        Inl e \<Rightarrow> Inl e
      | Inr (resampler, w1) \<Rightarrow>
          (case np_take a resampler of Inl e \<Rightarrow> Inl e | Inr sample \<Rightarrow> Inr (sample, w1)))"

fun boot_loop :: "(world \<Rightarrow> error + (npfloat list \<times> world)) \<Rightarrow> (npfloat list \<Rightarrow> npfloat) \<Rightarrow>
                  nat \<Rightarrow> world \<Rightarrow> error + (npfloat list \<times> world)" where
  "boot_loop draw func 0 w = Inr ([], w)"
| "boot_loop draw func (Suc k) w =
     (case draw w of
        Inl e \<Rightarrow> Inl e
      | Inr (sample, w1) \<Rightarrow>
          (case boot_loop draw func k w1 of
             Inl e \<Rightarrow> Inl e
           | Inr (boot_dist, w2) \<Rightarrow> Inr (func sample # boot_dist, w2)))"

definition kde_draw :: "env \<Rightarrow> npfloat list \<Rightarrow> world \<Rightarrow> error + (npfloat list \<times> world)" where
  "kde_draw E a w =
     (case kde_resample E a (length a) (entropy w) (cursor w) of
        (sample, c) \<Rightarrow> Inr (sample, w\<lparr>cursor := c\<rparr>))"

definition sb_bootstrap :: "env \<Rightarrow> npfloat list \<Rightarrow> (npfloat list \<Rightarrow> npfloat) \<Rightarrow> int \<Rightarrow> bool \<Rightarrow>
                            world \<Rightarrow> error + (npfloat list \<times> world)" where
  "sb_bootstrap E a func n_boot smooth w =
     (if smooth then
        (case kde_fit E a of
           Some e \<Rightarrow> Inl e
         | None \<Rightarrow> boot_loop (kde_draw E a) func (nat n_boot) w)
      else boot_loop (resample_draw E a) func (nat n_boot) w)"

section \<open>The interval estimator\<close>

text \<open>\<^verbatim>\<open>alphas = np.array([alpha/2, 1-alpha/2])\<close>.\<close>

definition two_sided :: "env \<Rightarrow> npfloat \<Rightarrow> npfloat \<times> npfloat" where
  "two_sided E alpha = (fhalf E alpha, fsub E (Fin 1) (fhalf E alpha))"

text \<open>
  \<^verbatim>\<open>np.nan_to_num(np.round((reps-1)*p)).astype('int')\<close> for one tail probability, and
  the percentile pair \<^verbatim>\<open>pct_low_high\<close> for both.
\<close>

definition index_of_prob :: "env \<Rightarrow> int \<Rightarrow> npfloat \<Rightarrow> int" where
  "index_of_prob E reps p = astype_int (nan_to_num (np_round (fmul E (of_pyint E (reps - 1)) p)))"

definition pct_low_high :: "env \<Rightarrow> int \<Rightarrow> npfloat \<times> npfloat \<Rightarrow> int \<times> int" where
  "pct_low_high E reps alphas = (index_of_prob E reps (fst alphas), index_of_prob E reps (snd alphas))"

text \<open>
  Modelled from the spec: the helper \<^verbatim>\<open>bca\<close> of \<^verbatim>\<open>bootstrap_tools\<close>, which the module
  imports and which is not among the sources. The specification (4.2) has it compute the
  bias correction, the jackknife acceleration and from them one adjusted tail probability
  for each of the two alphas, "then converted to distribution indices as in the percentile
  method". The adjusted probabilities are the environment's \<open>bca_avals\<close>; the conversion
  is \<open>index_of_prob\<close>.
\<close>

definition bca :: "env \<Rightarrow> npfloat list \<Rightarrow> npfloat \<times> npfloat \<Rightarrow> npfloat list \<Rightarrow>
                   (npfloat list \<Rightarrow> npfloat) \<Rightarrow> npfloat \<Rightarrow> int \<Rightarrow> error + (int \<times> int)" where
  "bca E data alphas statarray statfunction ostat reps =
     (case bca_avals E data alphas statarray statfunction ostat reps of
        Inl e \<Rightarrow> Inl e
      | Inr avals \<Rightarrow> Inr (index_of_prob E reps (fst avals), index_of_prob E reps (snd avals)))"

subsection \<open>Stability warnings\<close>

text \<open>
  \<^verbatim>\<open>warnings.warn(msg)\<close> under the current filter: dropped, shown to the caller, or
  raised as an exception.
\<close>

definition warn :: "string \<Rightarrow> world \<Rightarrow> error + world" where
  "warn msg w =
     (case wfilter w of
        Ignore \<Rightarrow> Inr w
      | Always \<Rightarrow> Inr (w\<lparr>shown := shown w @ [msg]\<rparr>)
      | Error \<Rightarrow> Inl UserWarning)"

definition extremal_msg :: string where
  "extremal_msg = ''Some values used extremal samples results are probably unstable.''"

definition marginal_msg :: string where
  "marginal_msg = ''Some values used top 10 low/high samples results may be unstable.''"

text \<open>The body of the loop \<^verbatim>\<open>for ind in [pct_low_high, bca_low_high]\<close>, and the loop.\<close>

definition check_indices :: "int \<Rightarrow> int \<times> int \<Rightarrow> world \<Rightarrow> error + world" where
  "check_indices reps ind w =
     (if fst ind = 0 \<or> snd ind = 0 \<or> fst ind = reps - 1 \<or> snd ind = reps - 1
        then warn extremal_msg w
      else if fst ind < 10 \<or> snd ind < 10 \<or> reps - 10 \<le> fst ind \<or> reps - 10 \<le> snd ind
        then warn marginal_msg w
      else Inr w)"

definition stability_warnings :: "int \<Rightarrow> int \<times> int \<Rightarrow> int \<times> int \<Rightarrow> world \<Rightarrow> error + world" where
  "stability_warnings reps pct bc w =
     (case check_indices reps pct w of Inl e \<Rightarrow> Inl e | Inr w1 \<Rightarrow> check_indices reps bc w1)"

section \<open>The single-sample bootstrap\<close>

text \<open>
  The result dictionaries as records. The key \<^verbatim>\<open>'statistic'\<close>, the printed name of
  the statistic function, is left out.
\<close>

record interval_result =
  summary :: npfloat
  bootstrap_reps :: int
  pct_ci_low :: npfloat
  pct_ci_high :: npfloat
  bca_ci_low :: npfloat
  bca_ci_high :: npfloat
  pct_low_high_indices :: "int \<times> int"
  bca_low_high_indices :: "int \<times> int"

record boot_result = interval_result +
  stat_array :: "npfloat list"

definition bootstrap :: "env \<Rightarrow> npfloat list \<Rightarrow> (npfloat list \<Rightarrow> npfloat) option \<Rightarrow> bool \<Rightarrow>
                         npfloat \<Rightarrow> int \<Rightarrow> world \<Rightarrow> error + (boot_result \<times> world)" where
  "bootstrap E data statfunction smoothboot alpha reps w =
     (let sf = default_mean E statfunction;
          alphas = two_sided E alpha;
          ostat = sf data
      in case sb_bootstrap E data sf reps smoothboot w of
           Inl e \<Rightarrow> Inl e
         | Inr (boots, w1) \<Rightarrow>
             (let statarray = sort boots;
                  pct = pct_low_high E reps alphas
              in case bca E data alphas statarray sf ostat reps of
                   Inl e \<Rightarrow> Inl e
                 | Inr bc \<Rightarrow>
                     (case stability_warnings reps pct bc w1 of
                        Inl e \<Rightarrow> Inl e
                      | Inr w2 \<Rightarrow>
                          (case np_index statarray (fst pct) of Inl e \<Rightarrow> Inl e | Inr pl \<Rightarrow>
                          (case np_index statarray (snd pct) of Inl e \<Rightarrow> Inl e | Inr ph \<Rightarrow>
                          (case np_index statarray (fst bc) of Inl e \<Rightarrow> Inl e | Inr bl \<Rightarrow>
                          (case np_index statarray (snd bc) of Inl e \<Rightarrow> Inl e | Inr bh \<Rightarrow>
                             Inr (\<lparr>summary = ostat, bootstrap_reps = reps,
                                   pct_ci_low = pl, pct_ci_high = ph,
                                   bca_ci_low = bl, bca_ci_high = bh,
                                   pct_low_high_indices = pct, bca_low_high_indices = bc,
                                   stat_array = statarray\<rparr>, w2))))))))"

section \<open>The unpaired two-group contrast\<close>

text \<open>
  A value of the grouping column, and an entry of the selector \<^verbatim>\<open>idx\<close>: an integer or
  a string. The data table is the list of its rows, restricted to the grouping column
  \<^verbatim>\<open>x\<close> and the value column \<^verbatim>\<open>y\<close>.
\<close>

datatype key = KInt int | KStr string

type_synonym table = "(key \<times> npfloat) list"

text \<open>\<^verbatim>\<open>data[x].unique()\<close>: the distinct values in order of first appearance.\<close>

fun unique :: "'a list \<Rightarrow> 'a list" where
  "unique [] = []"
| "unique (v # vs) = v # unique (removeAll v vs)"

text \<open>The two dictionaries built by zipping the levels with their positions.\<close>

definition levels_to_idx :: "key list \<Rightarrow> key \<Rightarrow> nat option" where
  "levels_to_idx levels = map_of (zip levels [0..<length levels])"

definition idx_to_levels :: "key list \<Rightarrow> key \<Rightarrow> key option" where
  "idx_to_levels levels = map_of (zip (map (\<lambda>k. KInt (int k)) [0..<length levels]) levels)"

text \<open>\<^verbatim>\<open>np.array(data.ix[data[x] == lev][y])\<close>: the values of the rows of one level.\<close>

definition rows_of :: "table \<Rightarrow> key \<Rightarrow> npfloat list" where
  "rows_of data lev = map snd (filter (\<lambda>row. fst row = lev) data)"

text \<open>
  The loop \<^verbatim>\<open>for i in idx\<close> that fills \<^verbatim>\<open>arraylist\<close>: an entry that is a level
  selects that level, otherwise an entry that is a position selects the level at that
  position, and any other entry is passed over.
\<close>

fun arraylist :: "table \<Rightarrow> key list \<Rightarrow> key list \<Rightarrow> npfloat list list" where
  "arraylist data levels [] = []"
| "arraylist data levels (i # idx) =
     (case levels_to_idx levels i of
        Some k \<Rightarrow> rows_of data (levels ! k) # arraylist data levels idx
      | None \<Rightarrow>
          (case i of
             KInt j \<Rightarrow>
               (if idx_to_levels levels i \<noteq> None
                then rows_of data (levels ! nat j) # arraylist data levels idx
                else arraylist data levels idx)
           | KStr s \<Rightarrow> arraylist data levels idx))"

text \<open>
  Lines 102 to 128: the default selector, the levels, and the reference and experimental
  arrays \<^verbatim>\<open>arraylist[0]\<close> and \<^verbatim>\<open>arraylist[1]\<close>.
\<close>

definition select_groups :: "table \<Rightarrow> key list option \<Rightarrow> error + (npfloat list \<times> npfloat list)" where
  "select_groups data idx =
     (let idx1 = (case idx of None \<Rightarrow> [KInt 0, KInt 1] | Some l \<Rightarrow> l);
          levels = unique (map fst data);
          al = arraylist data levels idx1
      in case np_index al 0 of
           Inl e \<Rightarrow> Inl e
         | Inr ref_array \<Rightarrow>
             (case np_index al 1 of Inl e \<Rightarrow> Inl e | Inr exp_array \<Rightarrow> Inr (ref_array, exp_array)))"

record contrast_result = interval_result +
  diffarray :: "npfloat list"
  statistic_ref :: npfloat
  statistic_exp :: npfloat
  ref_input :: "npfloat list"
  test_input :: "npfloat list"
  pvalue_ttest :: npfloat
  pvalue_mannWhitney :: npfloat

text \<open>
  \<^verbatim>\<open>diff_array_t\<close> is a tuple holding the array \<^verbatim>\<open>diff_array\<close> itself, which is then
  sorted in place: \<^verbatim>\<open>bca\<close> receives the sorted array in both positions.
\<close>

definition bootstrap_contrast :: "env \<Rightarrow> table \<Rightarrow> key list option \<Rightarrow> (npfloat list \<Rightarrow> npfloat) option \<Rightarrow>
    bool \<Rightarrow> npfloat \<Rightarrow> int \<Rightarrow> world \<Rightarrow> error + (contrast_result \<times> world)" where
  "bootstrap_contrast E data idx statfunction smoothboot alpha reps w =
     (let sf = default_mean E statfunction;
          alphas = two_sided E alpha
      in case select_groups data idx of
           Inl e \<Rightarrow> Inl e
         | Inr (ref_array, exp_array) \<Rightarrow>
      (case sb_bootstrap E ref_array sf reps smoothboot w of
           Inl e \<Rightarrow> Inl e
         | Inr (ref_statarray, w1) \<Rightarrow>
      (case sb_bootstrap E exp_array sf reps smoothboot w1 of
           Inl e \<Rightarrow> Inl e
         | Inr (exp_statarray, w2) \<Rightarrow>
      (case np_sub E exp_statarray ref_statarray of
           Inl e \<Rightarrow> Inl e
         | Inr d \<Rightarrow>
      (let diff_array = sort d;
           ostat = fsub E (sf exp_array) (sf ref_array);
           pct = pct_low_high E reps alphas
       in case bca E diff_array alphas diff_array sf ostat reps of
            Inl e \<Rightarrow> Inl e
          | Inr bc \<Rightarrow>
      (case stability_warnings reps pct bc w2 of
            Inl e \<Rightarrow> Inl e
          | Inr w3 \<Rightarrow>
      (case ttest_ind E ref_array exp_array of
            Inl e \<Rightarrow> Inl e
          | Inr ttestresult \<Rightarrow>
      (case mannwhitneyu E ref_array exp_array of
            Inl e \<Rightarrow> Inl e
          | Inr mannwhitneyresult \<Rightarrow>
      (case np_index diff_array (fst pct) of Inl e \<Rightarrow> Inl e | Inr pl \<Rightarrow>
      (case np_index diff_array (snd pct) of Inl e \<Rightarrow> Inl e | Inr ph \<Rightarrow>
      (case np_index diff_array (fst bc) of Inl e \<Rightarrow> Inl e | Inr bl \<Rightarrow>
      (case np_index diff_array (snd bc) of Inl e \<Rightarrow> Inl e | Inr bh \<Rightarrow>
         Inr (\<lparr>summary = ostat, bootstrap_reps = reps,
               pct_ci_low = pl, pct_ci_high = ph,
               bca_ci_low = bl, bca_ci_high = bh,
               pct_low_high_indices = pct, bca_low_high_indices = bc,
               diffarray = diff_array,
               statistic_ref = sf ref_array, statistic_exp = sf exp_array,
               ref_input = ref_array, test_input = exp_array,
               pvalue_ttest = snd ttestresult,
               pvalue_mannWhitney = fmul E (snd mannwhitneyresult) (Fin 2)\<rparr>, w3)))))))))))))"

section \<open>The paired contrast\<close>

text \<open>
  The selector of \<^verbatim>\<open>pairedcontrast\<close>: a sequence whose elements are strings, tuples of
  strings, or something else.
\<close>

datatype pyobj = PStr string | PTuple "string list" | POther

definition is_str :: "pyobj \<Rightarrow> bool" where
  "is_str e = (case e of PStr s \<Rightarrow> True | _ \<Rightarrow> False)"

definition is_tuple :: "pyobj \<Rightarrow> bool" where
  "is_tuple e = (case e of PTuple t \<Rightarrow> True | _ \<Rightarrow> False)"

definition str_of :: "pyobj \<Rightarrow> string" where
  "str_of e = (case e of PStr s \<Rightarrow> s | _ \<Rightarrow> [])"

definition len_of :: "pyobj \<Rightarrow> nat" where
  "len_of e = (case e of PStr s \<Rightarrow> length s | PTuple t \<Rightarrow> length t | POther \<Rightarrow> 0)"

text \<open>
  Lines 1040 to 1057. \<open>levels\<close> is \<^verbatim>\<open>np.unique(data[x])\<close>, the sorted distinct levels.
  A selector of strings that does not have length 2 is printed and the process exits
  through \<^verbatim>\<open>sys.exit(0)\<close>. In the branch for tuples the message names \<^verbatim>\<open>element\<close>,
  a variable bound only inside the preceding generator expressions, so the \<^verbatim>\<open>print\<close>
  raises \<^verbatim>\<open>NameError\<close> before \<^verbatim>\<open>sys.exit\<close> is reached.
\<close>

definition pairedcontrast_idx :: "string list \<Rightarrow> pyobj list option \<Rightarrow> error + pyobj list" where
  "pairedcontrast_idx levels idx =
     (case idx of
        None \<Rightarrow> Inr (map PStr (take 2 levels))
      | Some l \<Rightarrow>
          (if list_all is_str l then
             (if length l \<noteq> 2 then Inl SystemExit else Inr [PTuple (map str_of l)])
           else if list_all is_tuple l then
             (if list_ex (\<lambda>element. len_of element \<noteq> 2) l then Inl NameError else Inr l)
           else Inr l))"

record paired_result = boot_result +
  ttest_pval :: npfloat

text \<open>
  Lines 1243 to 1256 and 1357 to 1360, for one pair of levels: \<open>plotPoints\<close> holds one row
  per subject with its before and its after value. \<^verbatim>\<open>bootstrap\<close> is called without
  \<^verbatim>\<open>alpha\<close>, so with the literal default \<^verbatim>\<open>0.05\<close>; the statistic has been defaulted
  to \<^verbatim>\<open>np.mean\<close> at line 1093. \<^verbatim>\<open>tempseries[0]\<close> raises on an empty table.
\<close>

definition pairedcontrast_stats :: "env \<Rightarrow> (npfloat \<times> npfloat) list \<Rightarrow> (npfloat list \<Rightarrow> npfloat) option \<Rightarrow>
    bool \<Rightarrow> int \<Rightarrow> world \<Rightarrow> error + (paired_result \<times> world)" where
  "pairedcontrast_stats E plotPoints statfunction smoothboot reps w =
     (let sf = default_mean E statfunction;
          delta_y = map (\<lambda>row. fsub E (snd row) (fst row)) plotPoints
      in case np_index delta_y 0 of
           Inl e \<Rightarrow> Inl e
         | Inr first \<Rightarrow>
      (case bootstrap E delta_y (Some sf) smoothboot (Fin (rnd E (5 / 100))) reps w of
           Inl e \<Rightarrow> Inl e
         | Inr (bootsDelta, w1) \<Rightarrow>
      (case ttest_1samp E delta_y (Fin 0) of
           Inl e \<Rightarrow> Inl e
         | Inr ttestresult \<Rightarrow>
             Inr (boot_result.extend bootsDelta \<lparr>ttest_pval = snd ttestresult\<rparr>, w1))))"

section \<open>Closed forms used in the statements\<close>

text \<open>
  The \<open>j\<close>-th resample that the index-drawing bootstrap takes of an array \<open>a\<close> when
  it starts in world \<open>w\<close>: position \<open>k\<close> of it is the element of \<open>a\<close> at the raw draw
  number \<open>j * len(a) + k\<close> after the cursor, reduced modulo \<open>len(a)\<close>.
\<close>

definition resample_at :: "world \<Rightarrow> nat \<Rightarrow> 'a list \<Rightarrow> 'a list" where
  "resample_at w j a =
     map (\<lambda>k. a ! (entropy w (cursor w + j * length a + k) mod length a)) [0..<length a]"

text \<open>
  An entry of the selector resolves when it is a level or a position of a level: these are
  the entries for which the loop over \<^verbatim>\<open>idx\<close> appends an array.
\<close>

definition resolves :: "key list \<Rightarrow> key \<Rightarrow> bool" where
  "resolves levels i \<longleftrightarrow> levels_to_idx levels i \<noteq> None \<or> idx_to_levels levels i \<noteq> None"

text \<open>
  The stability policy in the specification's words: an index is unstable when it equals
  \<open>0\<close> or \<open>reps - 1\<close> or lies within the outer 10 samples of either tail; a pair of
  indices draws one warning when one of its indices is unstable, the extremal one when an
  index is \<open>0\<close> or \<open>reps - 1\<close>.
\<close>

definition unstable :: "int \<Rightarrow> int \<Rightarrow> bool" where
  "unstable reps i \<longleftrightarrow> i = 0 \<or> i = reps - 1 \<or> i < 10 \<or> reps - 10 \<le> i"

definition pair_warning :: "int \<Rightarrow> int \<times> int \<Rightarrow> string list" where
  "pair_warning reps ind =
     (if fst ind = 0 \<or> fst ind = reps - 1 \<or> snd ind = 0 \<or> snd ind = reps - 1 then [extremal_msg]
      else if unstable reps (fst ind) \<or> unstable reps (snd ind) then [marginal_msg]
      else [])"


section \<open>Stand-ins for the libraries\<close>

text \<open>
  An environment for evaluating the functions on concrete inputs: exact arithmetic, the
  mean in exact arithmetic (NaN on an empty array or when a NaN is present), a
  \<^verbatim>\<open>randint\<close> that rejects every empty range, an adjustment of the tail probabilities
  that leaves them as they are (no bias, no acceleration), tests that report no
  difference, and a Mann-Whitney test that is one-sided by default.
\<close>

definition the_fin :: "npfloat \<Rightarrow> real" where
  "the_fin a = (case a of Fin x \<Rightarrow> x | NaN \<Rightarrow> 0)"

definition exact_mean :: "npfloat list \<Rightarrow> npfloat" where
  "exact_mean xs =
     (if xs = [] \<or> NaN \<in> set xs then NaN
      else Fin (sum_list (map the_fin xs) / real (length xs)))"

definition exact_env :: env where
  "exact_env =
     \<lparr>rnd = (\<lambda>x. x), np_mean = exact_mean, randint_checks_empty = True,
      kde_fit = (\<lambda>a. None), kde_resample = (\<lambda>a n s c. (a, c)),
      bca_avals = (\<lambda>data alphas statarray statfunction ostat reps. Inr alphas),
      ttest_ind = (\<lambda>a b. Inr (Fin 0, Fin 1)),
      mw_one_sided = (\<lambda>a b. Inr (Fin 0, Fin (1 / 2))), mw_default_two_sided = False,
      ttest_1samp = (\<lambda>a m. Inr (Fin 0, Fin 1))\<rparr>"

text \<open>
  A table with two groups, \<open>a = [0, 2]\<close> and \<open>b = [1, 3]\<close>, rows interleaved, and a world
  under the module's own warnings filter whose raw draws are \<open>0, 0, 1, 1, 2, 2, \<dots>\<close>.
\<close>

definition demo_table :: table where
  "demo_table = [(KStr ''a'', Fin 0), (KStr ''b'', Fin 1), (KStr ''a'', Fin 2), (KStr ''b'', Fin 3)]"

definition demo_world :: world where
  "demo_world = \<lparr>entropy = (\<lambda>i. i div 2), cursor = 0, wfilter = module_filter, shown = []\<rparr>"


text \<open>A world whose raw draws are \<open>0, 0, 1, 1, 1, 1, 0, 0, 0, \<dots>\<close>.\<close>

definition demo_world2 :: world where
  "demo_world2 = \<lparr>entropy = (\<lambda>i. if 2 \<le> i \<and> i < 6 then 1 else 0), cursor = 0,
                    wfilter = module_filter, shown = []\<rparr>"

text \<open>The result of the contrast of \<open>b\<close> against \<open>a\<close> on \<open>demo_table\<close> in that world, with two replicates.\<close>

definition demo_result :: contrast_result where
  "demo_result =
     \<lparr>summary = Fin 1, bootstrap_reps = 2, pct_ci_low = Fin (- 1), pct_ci_high = Fin 3,
      bca_ci_low = Fin (- 1), bca_ci_high = Fin 3,
      pct_low_high_indices = (0, 1), bca_low_high_indices = (0, 1),
      diffarray = [Fin (- 1), Fin 3], statistic_ref = Fin 1, statistic_exp = Fin 2,
      ref_input = [Fin 0, Fin 2], test_input = [Fin 1, Fin 3],
      pvalue_ttest = Fin 1, pvalue_mannWhitney = Fin 1\<rparr>"

text \<open>
  The results of the two orders of the contrast on \<open>demo_table\<close> in \<open>demo_world\<close> with a
  single replicate, and the result of the contrast of \<open>a\<close> against \<open>b\<close> with two
  replicates in a world whose raw draws are \<open>1, 1, 0, 0, 0, 0, 1, 1, 1, \<dots>\<close>.
\<close>

definition demo_result_ab :: contrast_result where
  "demo_result_ab =
     \<lparr>summary = Fin 1, bootstrap_reps = 1, pct_ci_low = Fin 3, pct_ci_high = Fin 3,
      bca_ci_low = Fin 3, bca_ci_high = Fin 3,
      pct_low_high_indices = (0, 0), bca_low_high_indices = (0, 0),
      diffarray = [Fin 3], statistic_ref = Fin 1, statistic_exp = Fin 2,
      ref_input = [Fin 0, Fin 2], test_input = [Fin 1, Fin 3],
      pvalue_ttest = Fin 1, pvalue_mannWhitney = Fin 1\<rparr>"

definition demo_result_ba :: contrast_result where
  "demo_result_ba =
     \<lparr>summary = Fin (- 1), bootstrap_reps = 1, pct_ci_low = Fin 1, pct_ci_high = Fin 1,
      bca_ci_low = Fin 1, bca_ci_high = Fin 1,
      pct_low_high_indices = (0, 0), bca_low_high_indices = (0, 0),
      diffarray = [Fin 1], statistic_ref = Fin 2, statistic_exp = Fin 1,
      ref_input = [Fin 1, Fin 3], test_input = [Fin 0, Fin 2],
      pvalue_ttest = Fin 1, pvalue_mannWhitney = Fin 1\<rparr>"

definition demo_world3 :: world where
  "demo_world3 = \<lparr>entropy = (\<lambda>i. if i < 2 \<or> 6 \<le> i then 1 else 0), cursor = 0,
                    wfilter = module_filter, shown = []\<rparr>"

definition demo_result_mirror :: contrast_result where
  "demo_result_mirror =
     \<lparr>summary = Fin (- 1), bootstrap_reps = 2, pct_ci_low = Fin (- 3), pct_ci_high = Fin 1,
      bca_ci_low = Fin (- 3), bca_ci_high = Fin 1,
      pct_low_high_indices = (0, 1), bca_low_high_indices = (0, 1),
      diffarray = [Fin (- 3), Fin 1], statistic_ref = Fin 2, statistic_exp = Fin 1,
      ref_input = [Fin 1, Fin 3], test_input = [Fin 0, Fin 2],
      pvalue_ttest = Fin 1, pvalue_mannWhitney = Fin 1\<rparr>"



text \<open>
  The same stand-ins with a \<^verbatim>\<open>randint\<close> that lets a draw of size 0 over an empty range
  through, and the record that \<^verbatim>\<open>bootstrap\<close> then returns for the empty sample with
  two replicates.
\<close>

definition lenient_env :: env where
  "lenient_env = exact_env\<lparr>randint_checks_empty := False\<rparr>"

definition nan_result :: boot_result where
  "nan_result =
     \<lparr>summary = NaN, bootstrap_reps = 2, pct_ci_low = NaN, pct_ci_high = NaN,
      bca_ci_low = NaN, bca_ci_high = NaN,
      pct_low_high_indices = (0, 1), bca_low_high_indices = (0, 1),
      stat_array = [NaN, NaN]\<rparr>"

text \<open>
  The record that \<^verbatim>\<open>bootstrap\<close> returns for the sample \<open>[0, 2]\<close> with two replicates in
  \<open>demo_world2\<close>, and that world after a caller has replaced the module's warnings filter
  by one that shows every warning.
\<close>

definition demo_boot_result :: boot_result where
  "demo_boot_result =
     \<lparr>summary = Fin 1, bootstrap_reps = 2, pct_ci_low = Fin 0, pct_ci_high = Fin 2,
      bca_ci_low = Fin 0, bca_ci_high = Fin 2,
      pct_low_high_indices = (0, 1), bca_low_high_indices = (0, 1),
      stat_array = [Fin 0, Fin 2]\<rparr>"

definition demo_world_always :: world where
  "demo_world_always = demo_world2\<lparr>wfilter := Always\<rparr>"

text \<open>
  Two subjects, before \<open>0\<close> and \<open>2\<close>, after \<open>1\<close> and \<open>5\<close>, and the result of the paired
  contrast on them with two replicates in \<open>demo_world2\<close>.
\<close>

definition demo_pairs :: "(npfloat \<times> npfloat) list" where
  "demo_pairs = [(Fin 0, Fin 1), (Fin 2, Fin 5)]"

definition demo_paired_result :: paired_result where
  "demo_paired_result =
     \<lparr>summary = Fin 2, bootstrap_reps = 2, pct_ci_low = Fin 1, pct_ci_high = Fin 3,
      bca_ci_low = Fin 1, bca_ci_high = Fin 3,
      pct_low_high_indices = (0, 1), bca_low_high_indices = (0, 1),
      stat_array = [Fin 1, Fin 3], ttest_pval = Fin 1\<rparr>"

text \<open>
  A statistic other than the mean, for runs in which the caller passes one: the exact sum
  (NaN when a NaN is present). The result of the contrast of \<open>b\<close> against \<open>a\<close> on
  \<open>demo_table\<close> with that statistic and two replicates in \<open>demo_world2\<close>, and that of the
  paired contrast on \<open>demo_pairs\<close>.
\<close>

definition array_sum :: "npfloat list \<Rightarrow> npfloat" where
  "array_sum xs = (if NaN \<in> set xs then NaN else Fin (sum_list (map the_fin xs)))"

definition demo_sum_result :: contrast_result where
  "demo_sum_result =
     \<lparr>summary = Fin 2, bootstrap_reps = 2, pct_ci_low = Fin (- 2), pct_ci_high = Fin 6,
      bca_ci_low = Fin (- 2), bca_ci_high = Fin 6,
      pct_low_high_indices = (0, 1), bca_low_high_indices = (0, 1),
      diffarray = [Fin (- 2), Fin 6], statistic_ref = Fin 2, statistic_exp = Fin 4,
      ref_input = [Fin 0, Fin 2], test_input = [Fin 1, Fin 3],
      pvalue_ttest = Fin 1, pvalue_mannWhitney = Fin 1\<rparr>"

definition demo_paired_sum_result :: paired_result where
  "demo_paired_sum_result =
     \<lparr>summary = Fin 4, bootstrap_reps = 2, pct_ci_low = Fin 2, pct_ci_high = Fin 6,
      bca_ci_low = Fin 2, bca_ci_high = Fin 6,
      pct_low_high_indices = (0, 1), bca_low_high_indices = (0, 1),
      stat_array = [Fin 2, Fin 6], ttest_pval = Fin 1\<rparr>"




section \<open>Rounding and index arithmetic\<close>




lemma astype_int_of_int [simp]: "astype_int (Fin (real_of_int n)) = n"
  unfolding astype_int_def by simp









lemma rounding_neg: "rounding r \<Longrightarrow> r (- x) = - r x"
  unfolding rounding_def by blast





lemma np_index_in_range: "0 \<le> i \<Longrightarrow> i < int (length xs) \<Longrightarrow> np_index xs i = Inr (xs ! nat i)"
  unfolding np_index_def by simp



lemma rounding_exact_env: "rounding (rnd exact_env)"
  by (simp add: rounding_def exact_env_def)


section \<open>The resampler\<close>

lemma np_take_in_range:
  "\<forall>i \<in> set is. 0 \<le> i \<and> i < int (length a) \<Longrightarrow> np_take a is = Inr (map (\<lambda>i. a ! nat i) is)"
  by (induction "is") (simp_all add: np_index_in_range)

lemma randint_nonempty:
  "0 < n \<Longrightarrow> randint E 0 (int n) m w =
     Inr (map (\<lambda>k. int (entropy w (cursor w + k) mod n)) [0..<m], w\<lparr>cursor := cursor w + m\<rparr>)"
  unfolding randint_def by simp

lemma resample_draw_nonempty:
  assumes "a \<noteq> []"
  shows "resample_draw E a w = Inr (resample_at w 0 a, w\<lparr>cursor := cursor w + length a\<rparr>)"
proof -
  have n: "0 < length a" using assms by simp
  have "np_take a (map (\<lambda>k. int (entropy w (cursor w + k) mod length a)) [0..<length a])
      = Inr (map (\<lambda>i. a ! nat i) (map (\<lambda>k. int (entropy w (cursor w + k) mod length a)) [0..<length a]))"
    using n by (intro np_take_in_range) auto
  then show ?thesis
    unfolding resample_draw_def resample_at_def
    by (simp add: randint_nonempty [OF n] comp_def)
qed

lemma resample_at_shift:
  "resample_at (w\<lparr>cursor := cursor w + length a\<rparr>) j a = resample_at w (Suc j) a"
  unfolding resample_at_def by (simp add: add.assoc add.commute add.left_commute)

lemma boot_loop_length:
  "boot_loop draw func k w = Inr (bs, w') \<Longrightarrow> length bs = k"
proof (induction k arbitrary: w bs w')
  case 0
  then show ?case by simp
next
  case (Suc k)
  then show ?case
    by (auto split: sum.splits prod.splits)
qed

lemma boot_loop_resample:
  assumes "a \<noteq> []"
  shows "boot_loop (resample_draw E a) func k w =
     Inr (map (\<lambda>j. func (resample_at w j a)) [0..<k], w\<lparr>cursor := cursor w + k * length a\<rparr>)"
proof (induction k arbitrary: w)
  case 0
  then show ?case by simp
next
  case (Suc k)
  have "map (\<lambda>j. func (resample_at (w\<lparr>cursor := cursor w + length a\<rparr>) j a)) [0..<k]
      = map (\<lambda>j. func (resample_at w (Suc j) a)) [0..<k]"
    by (simp add: resample_at_shift)
  also have "\<dots> = map (\<lambda>j. func (resample_at w j a)) [Suc 0..<Suc k]"
    by (simp add: map_Suc_upt [symmetric] comp_def del: upt_Suc)
  finally have tl: "map (\<lambda>j. func (resample_at (w\<lparr>cursor := cursor w + length a\<rparr>) j a)) [0..<k]
      = map (\<lambda>j. func (resample_at w j a)) [Suc 0..<Suc k]" .
  have hd: "[0..<Suc k] = 0 # [Suc 0..<Suc k]"
    by (simp add: upt_conv_Cons del: upt_Suc)
  have step: "resample_draw E a w = Inr (resample_at w 0 a, w\<lparr>cursor := cursor w + length a\<rparr>)"
    by (rule resample_draw_nonempty [OF assms])
  show ?case
    unfolding boot_loop.simps step
    by (simp add: Suc.IH tl hd add.assoc del: upt_Suc)
qed

lemma sb_bootstrap_length:
  "sb_bootstrap E a func n_boot smooth w = Inr (bs, w') \<Longrightarrow> length bs = nat n_boot"
  unfolding sb_bootstrap_def
  by (auto split: if_splits option.splits dest: boot_loop_length)

lemma sb_bootstrap_resample:
  "a \<noteq> [] \<Longrightarrow> sb_bootstrap E a func n_boot False w =
     Inr (map (\<lambda>j. func (resample_at w j a)) [0..<nat n_boot],
          w\<lparr>cursor := cursor w + nat n_boot * length a\<rparr>)"
  unfolding sb_bootstrap_def by (simp add: boot_loop_resample)

lemma boot_loop_frame:
  assumes "\<And>v s v'. draw v = Inr (s, v') \<Longrightarrow> wfilter v' = wfilter v \<and> shown v' = shown v \<and> entropy v' = entropy v"
  shows "boot_loop draw func k w = Inr (bs, w') \<Longrightarrow>
         wfilter w' = wfilter w \<and> shown w' = shown w \<and> entropy w' = entropy w"
proof (induction k arbitrary: w bs w')
  case 0
  then show ?case by simp
next
  case (Suc k)
  from Suc.prems obtain s w1 rest where d: "draw w = Inr (s, w1)"
    and r: "boot_loop draw func k w1 = Inr (rest, w')"
    by (auto split: sum.splits prod.splits)
  from assms [OF d] Suc.IH [OF r] show ?case by simp
qed

lemma resample_draw_frame:
  "resample_draw E a v = Inr (s, v') \<Longrightarrow>
     wfilter v' = wfilter v \<and> shown v' = shown v \<and> entropy v' = entropy v"
  unfolding resample_draw_def randint_def
  by (auto split: if_splits sum.splits prod.splits)

lemma kde_draw_frame:
  "kde_draw E a v = Inr (s, v') \<Longrightarrow>
     wfilter v' = wfilter v \<and> shown v' = shown v \<and> entropy v' = entropy v"
  unfolding kde_draw_def by (auto split: prod.splits)

lemma sb_bootstrap_frame:
  "sb_bootstrap E a func n_boot smooth w = Inr (bs, w') \<Longrightarrow>
     wfilter w' = wfilter w \<and> shown w' = shown w \<and> entropy w' = entropy w"
  unfolding sb_bootstrap_def
  by (auto split: if_splits option.splits
      dest: boot_loop_frame [OF resample_draw_frame, rotated] boot_loop_frame [OF kde_draw_frame, rotated])

section \<open>Unfolding the three functions\<close>

lemma bootstrap_contrast_cases:
  assumes "bootstrap_contrast E data idx statfunction smoothboot alpha reps w = Inr (r, w')"
  obtains ref_array exp_array ref_statarray w1 exp_statarray w2 d bc tt mw where
    "select_groups data idx = Inr (ref_array, exp_array)"
    "sb_bootstrap E ref_array (default_mean E statfunction) reps smoothboot w = Inr (ref_statarray, w1)"
    "sb_bootstrap E exp_array (default_mean E statfunction) reps smoothboot w1 = Inr (exp_statarray, w2)"
    "np_sub E exp_statarray ref_statarray = Inr d"
    "bca E (sort d) (two_sided E alpha) (sort d) (default_mean E statfunction)
       (fsub E (default_mean E statfunction exp_array) (default_mean E statfunction ref_array)) reps = Inr bc"
    "stability_warnings reps (pct_low_high E reps (two_sided E alpha)) bc w2 = Inr w'"
    "ttest_ind E ref_array exp_array = Inr tt"
    "mannwhitneyu E ref_array exp_array = Inr mw"
    "np_index (sort d) (fst (pct_low_high E reps (two_sided E alpha))) = Inr (pct_ci_low r)"
    "np_index (sort d) (snd (pct_low_high E reps (two_sided E alpha))) = Inr (pct_ci_high r)"
    "np_index (sort d) (fst bc) = Inr (bca_ci_low r)"
    "np_index (sort d) (snd bc) = Inr (bca_ci_high r)"
    "summary r = fsub E (default_mean E statfunction exp_array) (default_mean E statfunction ref_array)"
    "bootstrap_reps r = reps"
    "pct_low_high_indices r = pct_low_high E reps (two_sided E alpha)"
    "bca_low_high_indices r = bc"
    "diffarray r = sort d"
    "statistic_ref r = default_mean E statfunction ref_array"
    "statistic_exp r = default_mean E statfunction exp_array"
    "ref_input r = ref_array" "test_input r = exp_array"
    "pvalue_ttest r = snd tt"
    "pvalue_mannWhitney r = fmul E (snd mw) (Fin 2)"
  using assms unfolding bootstrap_contrast_def Let_def
  by (auto split: sum.splits prod.splits)

lemma bootstrap_contrast_steps:
  assumes "select_groups data idx = Inr (ref_array, exp_array)"
    and "sb_bootstrap E ref_array (default_mean E statfunction) reps smoothboot w = Inr (ref_statarray, w1)"
    and "sb_bootstrap E exp_array (default_mean E statfunction) reps smoothboot w1 = Inr (exp_statarray, w2)"
    and "np_sub E exp_statarray ref_statarray = Inr d"
    and "bca E (sort d) (two_sided E alpha) (sort d) (default_mean E statfunction)
       (fsub E (default_mean E statfunction exp_array) (default_mean E statfunction ref_array)) reps = Inr bc"
    and "stability_warnings reps (pct_low_high E reps (two_sided E alpha)) bc w2 = Inr w3"
    and "ttest_ind E ref_array exp_array = Inr tt"
    and "mannwhitneyu E ref_array exp_array = Inr mw"
    and "np_index (sort d) (fst (pct_low_high E reps (two_sided E alpha))) = Inr pl"
    and "np_index (sort d) (snd (pct_low_high E reps (two_sided E alpha))) = Inr ph"
    and "np_index (sort d) (fst bc) = Inr bl"
    and "np_index (sort d) (snd bc) = Inr bh"
  shows "bootstrap_contrast E data idx statfunction smoothboot alpha reps w =
     Inr (\<lparr>summary = fsub E (default_mean E statfunction exp_array) (default_mean E statfunction ref_array),
           bootstrap_reps = reps, pct_ci_low = pl, pct_ci_high = ph, bca_ci_low = bl, bca_ci_high = bh,
           pct_low_high_indices = pct_low_high E reps (two_sided E alpha),
           bca_low_high_indices = bc, diffarray = sort d,
           statistic_ref = default_mean E statfunction ref_array,
           statistic_exp = default_mean E statfunction exp_array,
           ref_input = ref_array, test_input = exp_array,
           pvalue_ttest = snd tt, pvalue_mannWhitney = fmul E (snd mw) (Fin 2)\<rparr>, w3)"
  unfolding bootstrap_contrast_def Let_def
  by (simp add: assms)

lemma bootstrap_cases:
  assumes "bootstrap E data statfunction smoothboot alpha reps w = Inr (r, w')"
  obtains boots w1 bc where
    "sb_bootstrap E data (default_mean E statfunction) reps smoothboot w = Inr (boots, w1)"
    "bca E data (two_sided E alpha) (sort boots) (default_mean E statfunction)
       (default_mean E statfunction data) reps = Inr bc"
    "stability_warnings reps (pct_low_high E reps (two_sided E alpha)) bc w1 = Inr w'"
    "np_index (sort boots) (fst (pct_low_high E reps (two_sided E alpha))) = Inr (pct_ci_low r)"
    "np_index (sort boots) (snd (pct_low_high E reps (two_sided E alpha))) = Inr (pct_ci_high r)"
    "np_index (sort boots) (fst bc) = Inr (bca_ci_low r)"
    "np_index (sort boots) (snd bc) = Inr (bca_ci_high r)"
    "summary r = default_mean E statfunction data"
    "bootstrap_reps r = reps"
    "pct_low_high_indices r = pct_low_high E reps (two_sided E alpha)"
    "bca_low_high_indices r = bc"
    "stat_array r = sort boots"
  using assms unfolding bootstrap_def Let_def
  by (auto split: sum.splits prod.splits)

lemma bootstrap_steps:
  assumes "sb_bootstrap E data (default_mean E statfunction) reps smoothboot w = Inr (boots, w1)"
    and "bca E data (two_sided E alpha) (sort boots) (default_mean E statfunction)
       (default_mean E statfunction data) reps = Inr bc"
    and "stability_warnings reps (pct_low_high E reps (two_sided E alpha)) bc w1 = Inr w2"
    and "np_index (sort boots) (fst (pct_low_high E reps (two_sided E alpha))) = Inr pl"
    and "np_index (sort boots) (snd (pct_low_high E reps (two_sided E alpha))) = Inr ph"
    and "np_index (sort boots) (fst bc) = Inr bl"
    and "np_index (sort boots) (snd bc) = Inr bh"
  shows "bootstrap E data statfunction smoothboot alpha reps w =
     Inr (\<lparr>summary = default_mean E statfunction data,
           bootstrap_reps = reps, pct_ci_low = pl, pct_ci_high = ph, bca_ci_low = bl, bca_ci_high = bh,
           pct_low_high_indices = pct_low_high E reps (two_sided E alpha),
           bca_low_high_indices = bc, stat_array = sort boots\<rparr>, w2)"
  unfolding bootstrap_def Let_def
  by (simp add: assms)

lemma warn_not_Error:
  "wfilter w \<noteq> Error \<Longrightarrow> \<exists>w'. warn msg w = Inr w'"
  unfolding warn_def by (cases "wfilter w") simp_all

lemma warn_Ignore: "wfilter w = Ignore \<Longrightarrow> warn msg w = Inr w"
  unfolding warn_def by simp

lemma warn_Always: "wfilter w = Always \<Longrightarrow> warn msg w = Inr (w\<lparr>shown := shown w @ [msg]\<rparr>)"
  unfolding warn_def by simp

lemma check_indices_Ignore: "wfilter w = Ignore \<Longrightarrow> check_indices reps ind w = Inr w"
  unfolding check_indices_def by (simp add: warn_Ignore)

lemma stability_warnings_Ignore: "wfilter w = Ignore \<Longrightarrow> stability_warnings reps pct bc w = Inr w"
  unfolding stability_warnings_def by (simp add: check_indices_Ignore)

section \<open>Properties of the two-group contrast\<close>

lemma np_sub_same_length:
  "length a = length b \<Longrightarrow> np_sub E a b = Inr (map2 (fsub E) a b)"
  unfolding np_sub_def by simp

text \<open>
  Claim C1. Let \<open>statistic\<close> be the function the caller passed, or the library's mean when
  the caller passed none. Whenever the two-group contrast returns, the resampler has been
  run with \<open>statistic\<close> on the reference group and then on the experimental group, both
  outputs have length \<open>reps\<close> (without smoothing, replicate \<open>j\<close> is \<open>statistic\<close> of the
  \<open>j\<close>-th resample of the group), the difference distribution is their elementwise
  difference, experimental minus reference, sorted non-decreasing, and the \<open>summary\<close> is
  \<open>statistic\<close> of the experimental group minus \<open>statistic\<close> of the reference group, the
  same for every state of the random source.
\<close>

theorem contrast_difference_distribution:
  assumes run: "bootstrap_contrast E data idx statfunction smoothboot alpha reps w = Inr (r, w')"
    and stat: "statistic = (case statfunction of None \<Rightarrow> np_mean E | Some f \<Rightarrow> f)"
  shows "\<exists>ref_array exp_array ref_statarray exp_statarray w1 w2.
      select_groups data idx = Inr (ref_array, exp_array)
    \<and> sb_bootstrap E ref_array statistic reps smoothboot w = Inr (ref_statarray, w1)
    \<and> sb_bootstrap E exp_array statistic reps smoothboot w1 = Inr (exp_statarray, w2)
    \<and> length ref_statarray = nat reps \<and> length exp_statarray = nat reps
    \<and> (\<not> smoothboot \<and> ref_array \<noteq> [] \<and> exp_array \<noteq> [] \<longrightarrow>
          ref_statarray = map (\<lambda>j. statistic (resample_at w j ref_array)) [0..<nat reps]
        \<and> exp_statarray = map (\<lambda>j. statistic (resample_at w1 j exp_array)) [0..<nat reps])
    \<and> diffarray r = sort (map2 (fsub E) exp_statarray ref_statarray)
    \<and> sorted (diffarray r) \<and> length (diffarray r) = nat reps
    \<and> summary r = fsub E (statistic exp_array) (statistic ref_array)
    \<and> statistic_ref r = statistic ref_array \<and> statistic_exp r = statistic exp_array
    \<and> (\<forall>v r2 v'. bootstrap_contrast E data idx statfunction smoothboot alpha reps v = Inr (r2, v')
          \<longrightarrow> summary r2 = summary r)"
proof -
  have sf: "default_mean E statfunction = statistic"
    unfolding stat default_mean_def ..
  from run obtain ref_array exp_array ref_statarray w1 exp_statarray w2 d where
    sel: "select_groups data idx = Inr (ref_array, exp_array)"
    and b1: "sb_bootstrap E ref_array statistic reps smoothboot w = Inr (ref_statarray, w1)"
    and b2: "sb_bootstrap E exp_array statistic reps smoothboot w1 = Inr (exp_statarray, w2)"
    and sub: "np_sub E exp_statarray ref_statarray = Inr d"
    and su: "summary r = fsub E (statistic exp_array) (statistic ref_array)"
    and sr: "statistic_ref r = statistic ref_array"
    and se: "statistic_exp r = statistic exp_array"
    and di: "diffarray r = sort d"
    unfolding sf [symmetric] by (rule bootstrap_contrast_cases)
  have l1: "length ref_statarray = nat reps" using b1 by (rule sb_bootstrap_length)
  have l2: "length exp_statarray = nat reps" using b2 by (rule sb_bootstrap_length)
  have d: "d = map2 (fsub E) exp_statarray ref_statarray"
    using sub np_sub_same_length [of exp_statarray ref_statarray E] l1 l2 by simp
  have rs: "ref_statarray = map (\<lambda>j. statistic (resample_at w j ref_array)) [0..<nat reps]"
    if "\<not> smoothboot" "ref_array \<noteq> []"
    using b1 that by (simp add: sb_bootstrap_resample)
  have es: "exp_statarray = map (\<lambda>j. statistic (resample_at w1 j exp_array)) [0..<nat reps]"
    if "\<not> smoothboot" "exp_array \<noteq> []"
    using b2 that by (simp add: sb_bootstrap_resample)
  have ind: "summary r2 = summary r"
    if "bootstrap_contrast E data idx statfunction smoothboot alpha reps v = Inr (r2, v')" for v r2 v'
  proof -
    from that obtain ref2 exp2 where
      sel2: "select_groups data idx = Inr (ref2, exp2)"
      and su2: "summary r2 = fsub E (statistic exp2) (statistic ref2)"
      unfolding sf [symmetric] by (rule bootstrap_contrast_cases)
    from sel sel2 su su2 show ?thesis by simp
  qed
  have "sorted (diffarray r)" "length (diffarray r) = nat reps"
    using di d l1 l2 by simp_all
  with sel b1 b2 l1 l2 di d su sr se ind rs es show ?thesis by blast
qed


section \<open>When the contrast returns\<close>

lemma warn_wfilter: "warn msg w = Inr w' \<Longrightarrow> wfilter w' = wfilter w \<and> entropy w' = entropy w \<and> cursor w' = cursor w"
  unfolding warn_def by (cases "wfilter w") auto

lemma check_indices_wfilter:
  "check_indices reps ind w = Inr w' \<Longrightarrow> wfilter w' = wfilter w \<and> entropy w' = entropy w \<and> cursor w' = cursor w"
  unfolding check_indices_def by (auto split: if_splits dest: warn_wfilter)

lemma check_indices_not_Error: "wfilter w \<noteq> Error \<Longrightarrow> \<exists>w'. check_indices reps ind w = Inr w'"
  unfolding check_indices_def by (simp add: warn_not_Error)

lemma stability_warnings_not_Error:
  assumes "wfilter w \<noteq> Error"
  shows "\<exists>w'. stability_warnings reps pct bc w = Inr w'"
proof -
  from check_indices_not_Error [OF assms] obtain w1 where 1: "check_indices reps pct w = Inr w1"
    by blast
  then have "wfilter w1 \<noteq> Error" using assms check_indices_wfilter by metis
  from check_indices_not_Error [OF this] obtain w2 where "check_indices reps bc w1 = Inr w2"
    by blast
  with 1 show ?thesis unfolding stability_warnings_def by simp
qed






section \<open>Groups without variance\<close>














section \<open>A concrete run of the contrast\<close>

lemma demo_select_ab:
  "select_groups demo_table (Some [KStr ''a'', KStr ''b'']) = Inr ([Fin 0, Fin 2], [Fin 1, Fin 3])"
  by code_simp

lemma demo_mean:
  "default_mean exact_env None [Fin x, Fin y] = Fin ((x + y) / 2)"
  by (simp add: default_mean_def exact_env_def exact_mean_def the_fin_def)

lemma exact_fsub: "fsub exact_env (Fin x) (Fin y) = Fin (x - y)"
  by (simp add: fsub_def exact_env_def)

lemma exact_pct_2: "pct_low_high exact_env 2 (two_sided exact_env (Fin (5 / 100))) = (0, 1)"
  by (simp add: pct_low_high_def two_sided_def fhalf_def fsub_def index_of_prob_def fmul_def
      of_pyint_def np_round_def nan_to_num_def astype_int_def exact_env_def round_half_even_def)

lemma exact_bca: "bca exact_env ds al st f os reps = Inr (pct_low_high exact_env reps al)"
  by (simp add: bca_def exact_env_def pct_low_high_def)

lemma demo2_boot_a:
  "sb_bootstrap exact_env [Fin 0, Fin 2] (default_mean exact_env None) 2 False demo_world2
     = Inr ([Fin 0, Fin 2], demo_world2\<lparr>cursor := 4\<rparr>)"
  by (simp add: sb_bootstrap_resample resample_at_def demo_mean demo_world2_def upt_conv_Cons)

lemma demo2_boot_b:
  "sb_bootstrap exact_env [Fin 1, Fin 3] (default_mean exact_env None) 2 False (demo_world2\<lparr>cursor := 4\<rparr>)
     = Inr ([Fin 3, Fin 1], demo_world2\<lparr>cursor := 8\<rparr>)"
  by (simp add: sb_bootstrap_resample resample_at_def demo_mean demo_world2_def upt_conv_Cons)

lemma demo2_sort: "sort [Fin 3, Fin (- 1)] = [Fin (- 1), Fin 3]"
  by (simp add: less_eq_npfloat_def)

lemma demo2_contrast:
  "bootstrap_contrast exact_env demo_table (Some [KStr ''a'', KStr ''b'']) None False (Fin (5 / 100)) 2 demo_world2
   = Inr (demo_result, demo_world2\<lparr>cursor := 8\<rparr>)"
proof -
  let ?al = "two_sided exact_env (Fin (5 / 100))"
  let ?pct = "pct_low_high exact_env 2 ?al"
  let ?d = "[Fin 3, Fin (- 1)]"
  have sub: "np_sub exact_env [Fin 3, Fin 1] [Fin 0, Fin 2] = Inr ?d"
    by (simp add: np_sub_def exact_fsub)
  have bc: "bca exact_env (sort ?d) ?al (sort ?d) (default_mean exact_env None)
      (fsub exact_env (default_mean exact_env None [Fin 1, Fin 3]) (default_mean exact_env None [Fin 0, Fin 2])) 2 = Inr (0, 1)"
    unfolding exact_bca exact_pct_2 ..
  have sw: "stability_warnings 2 ?pct (0, 1) (demo_world2\<lparr>cursor := 8\<rparr>) = Inr (demo_world2\<lparr>cursor := 8\<rparr>)"
    by (rule stability_warnings_Ignore) (simp add: demo_world2_def module_filter_def)
  have tt: "ttest_ind exact_env [Fin 0, Fin 2] [Fin 1, Fin 3] = Inr (Fin 0, Fin 1)"
    by (simp add: exact_env_def)
  have mw: "mannwhitneyu exact_env [Fin 0, Fin 2] [Fin 1, Fin 3] = Inr (Fin 0, Fin (1 / 2))"
    by (simp add: mannwhitneyu_def exact_env_def)
  have i1: "np_index (sort ?d) (fst ?pct) = Inr (Fin (- 1))"
    unfolding exact_pct_2 demo2_sort by (simp add: np_index_def)
  have i2: "np_index (sort ?d) (snd ?pct) = Inr (Fin 3)"
    unfolding exact_pct_2 demo2_sort by (simp add: np_index_def)
  have i3: "np_index (sort ?d) (fst (0, 1)) = Inr (Fin (- 1))"
    unfolding demo2_sort by (simp add: np_index_def)
  have i4: "np_index (sort ?d) (snd (0, 1)) = Inr (Fin 3)"
    unfolding demo2_sort by (simp add: np_index_def)
  have fm: "fmul exact_env (snd (Fin 0, Fin (1 / 2))) (Fin 2) = Fin 1"
    by (simp add: fmul_def exact_env_def)
  have m: "default_mean exact_env None [Fin 0, Fin 2] = Fin 1" "default_mean exact_env None [Fin 1, Fin 3] = Fin 2"
    by (simp_all add: demo_mean)
  have fs: "fsub exact_env (Fin 2) (Fin 1) = Fin 1"
    by (simp add: exact_fsub)
  note st = bootstrap_contrast_steps [OF demo_select_ab demo2_boot_a demo2_boot_b sub bc sw tt mw i1 i2 i3 i4]
  show ?thesis
    unfolding demo_result_def
    using st [unfolded exact_pct_2 demo2_sort fm m fs] by simp
qed

lemma exact_contrast_run:
  assumes sel: "select_groups data idx = Inr (ra, ea)"
    and b1: "sb_bootstrap exact_env ra (default_mean exact_env statfunction) reps False w = Inr (rs, w1)"
    and b2: "sb_bootstrap exact_env ea (default_mean exact_env statfunction) reps False w1 = Inr (es, w2)"
    and srt: "sort (map2 (fsub exact_env) es rs) = ds"
    and pct: "pct_low_high exact_env reps (two_sided exact_env alpha) = (l, h)"
    and ign: "wfilter w2 = Ignore"
    and ix: "np_index ds l = Inr pl" "np_index ds h = Inr ph"
  shows "bootstrap_contrast exact_env data idx statfunction False alpha reps w =
     Inr (\<lparr>summary = fsub exact_env (default_mean exact_env statfunction ea) (default_mean exact_env statfunction ra),
           bootstrap_reps = reps, pct_ci_low = pl, pct_ci_high = ph, bca_ci_low = pl, bca_ci_high = ph,
           pct_low_high_indices = (l, h), bca_low_high_indices = (l, h), diffarray = ds,
           statistic_ref = default_mean exact_env statfunction ra, statistic_exp = default_mean exact_env statfunction ea,
           ref_input = ra, test_input = ea,
           pvalue_ttest = Fin 1, pvalue_mannWhitney = Fin 1\<rparr>, w2)"
proof -
  let ?al = "two_sided exact_env alpha"
  let ?d = "map2 (fsub exact_env) es rs"
  have len: "length es = length rs"
    using sb_bootstrap_length [OF b1] sb_bootstrap_length [OF b2] by simp
  have sub: "np_sub exact_env es rs = Inr ?d"
    by (rule np_sub_same_length [OF len])
  have bc: "bca exact_env (sort ?d) ?al (sort ?d) (default_mean exact_env statfunction)
      (fsub exact_env (default_mean exact_env statfunction ea) (default_mean exact_env statfunction ra)) reps = Inr (l, h)"
    unfolding exact_bca pct ..
  have sw: "stability_warnings reps (pct_low_high exact_env reps ?al) (l, h) w2 = Inr w2"
    by (rule stability_warnings_Ignore [OF ign])
  have tt: "ttest_ind exact_env ra ea = Inr (Fin 0, Fin 1)"
    by (simp add: exact_env_def)
  have mw: "mannwhitneyu exact_env ra ea = Inr (Fin 0, Fin (1 / 2))"
    by (simp add: mannwhitneyu_def exact_env_def)
  have i1: "np_index (sort ?d) (fst (pct_low_high exact_env reps ?al)) = Inr pl"
    unfolding pct srt using ix by simp
  have i2: "np_index (sort ?d) (snd (pct_low_high exact_env reps ?al)) = Inr ph"
    unfolding pct srt using ix by simp
  have i3: "np_index (sort ?d) (fst (l, h)) = Inr pl"
    unfolding srt using ix by simp
  have i4: "np_index (sort ?d) (snd (l, h)) = Inr ph"
    unfolding srt using ix by simp
  have fm: "fmul exact_env (snd (Fin 0, Fin (1 / 2))) (Fin 2) = Fin 1"
    by (simp add: fmul_def exact_env_def)
  note st = bootstrap_contrast_steps [OF sel b1 b2 sub bc sw tt mw i1 i2 i3 i4]
  show ?thesis
    using st [unfolded pct srt fm] by simp
qed

lemma sum_pair: "array_sum [Fin x, Fin y] = Fin (x + y)"
  by (simp add: array_sum_def the_fin_def)

lemma demo_sum_boot_a:
  "sb_bootstrap exact_env [Fin 0, Fin 2] (default_mean exact_env (Some array_sum)) 2 False demo_world2
     = Inr ([Fin 0, Fin 4], demo_world2\<lparr>cursor := 4\<rparr>)"
  by (simp add: sb_bootstrap_resample resample_at_def default_mean_def sum_pair demo_world2_def
      upt_conv_Cons)

lemma demo_sum_boot_b:
  "sb_bootstrap exact_env [Fin 1, Fin 3] (default_mean exact_env (Some array_sum)) 2 False
       (demo_world2\<lparr>cursor := 4\<rparr>)
     = Inr ([Fin 6, Fin 2], demo_world2\<lparr>cursor := 8\<rparr>)"
  by (simp add: sb_bootstrap_resample resample_at_def default_mean_def sum_pair demo_world2_def
      upt_conv_Cons)

lemma demo_sum_contrast:
  "bootstrap_contrast exact_env demo_table (Some [KStr ''a'', KStr ''b'']) (Some array_sum) False
       (Fin (5 / 100)) 2 demo_world2
   = Inr (demo_sum_result, demo_world2\<lparr>cursor := 8\<rparr>)"
proof -
  have srt: "sort (map2 (fsub exact_env) [Fin 6, Fin 2] [Fin 0, Fin 4]) = [Fin (- 2), Fin 6]"
    by (simp add: exact_fsub less_eq_npfloat_def)
  have ign: "wfilter (demo_world2\<lparr>cursor := 8\<rparr>) = Ignore"
    by (simp add: demo_world2_def module_filter_def)
  have ix: "np_index [Fin (- 2), Fin 6] 0 = Inr (Fin (- 2))" "np_index [Fin (- 2), Fin 6] 1 = Inr (Fin 6)"
    by (simp_all add: np_index_def)
  show ?thesis
    unfolding demo_sum_result_def
    using exact_contrast_run [OF demo_select_ab demo_sum_boot_a demo_sum_boot_b srt exact_pct_2 ign ix]
    by (simp add: default_mean_def sum_pair exact_fsub)
qed

theorem contrast_difference_distribution_witness:
  "bootstrap_contrast exact_env demo_table (Some [KStr ''a'', KStr ''b'']) (Some array_sum) False
       (Fin (5 / 100)) 2 demo_world2
     = Inr (demo_sum_result, demo_world2\<lparr>cursor := 8\<rparr>)
   \<and> select_groups demo_table (Some [KStr ''a'', KStr ''b'']) = Inr ([Fin 0, Fin 2], [Fin 1, Fin 3])
   \<and> sb_bootstrap exact_env [Fin 0, Fin 2] array_sum 2 False demo_world2
       = Inr ([Fin 0, Fin 4], demo_world2\<lparr>cursor := 4\<rparr>)
   \<and> sb_bootstrap exact_env [Fin 1, Fin 3] array_sum 2 False (demo_world2\<lparr>cursor := 4\<rparr>)
       = Inr ([Fin 6, Fin 2], demo_world2\<lparr>cursor := 8\<rparr>)
   \<and> diffarray demo_sum_result = sort (map2 (fsub exact_env) [Fin 6, Fin 2] [Fin 0, Fin 4])
   \<and> diffarray demo_sum_result = [Fin (- 2), Fin 6]
   \<and> sorted (diffarray demo_sum_result) \<and> length (diffarray demo_sum_result) = nat 2
   \<and> summary demo_sum_result = fsub exact_env (array_sum [Fin 1, Fin 3]) (array_sum [Fin 0, Fin 2])
   \<and> summary demo_sum_result = Fin 2
   \<and> bootstrap_contrast exact_env demo_table (Some [KStr ''a'', KStr ''b'']) None False
       (Fin (5 / 100)) 2 demo_world2
     = Inr (demo_result, demo_world2\<lparr>cursor := 8\<rparr>)
   \<and> summary demo_result = fsub exact_env (np_mean exact_env [Fin 1, Fin 3]) (np_mean exact_env [Fin 0, Fin 2])
   \<and> summary demo_result = Fin 1"
proof -
  have ba: "sb_bootstrap exact_env [Fin 0, Fin 2] array_sum 2 False demo_world2
       = Inr ([Fin 0, Fin 4], demo_world2\<lparr>cursor := 4\<rparr>)"
    using demo_sum_boot_a by (simp add: default_mean_def)
  have bb: "sb_bootstrap exact_env [Fin 1, Fin 3] array_sum 2 False (demo_world2\<lparr>cursor := 4\<rparr>)
       = Inr ([Fin 6, Fin 2], demo_world2\<lparr>cursor := 8\<rparr>)"
    using demo_sum_boot_b by (simp add: default_mean_def)
  from contrast_difference_distribution [OF demo_sum_contrast, of array_sum]
  have S: "diffarray demo_sum_result = sort (map2 (fsub exact_env) [Fin 6, Fin 2] [Fin 0, Fin 4])
     \<and> sorted (diffarray demo_sum_result) \<and> length (diffarray demo_sum_result) = nat 2
     \<and> summary demo_sum_result = fsub exact_env (array_sum [Fin 1, Fin 3]) (array_sum [Fin 0, Fin 2])"
    by (auto simp: demo_select_ab ba bb)
  from contrast_difference_distribution [OF demo2_contrast, of "np_mean exact_env"]
  have M: "summary demo_result = fsub exact_env (np_mean exact_env [Fin 1, Fin 3]) (np_mean exact_env [Fin 0, Fin 2])"
    by (auto simp: demo_select_ab)
  have v: "diffarray demo_sum_result = [Fin (- 2), Fin 6]" "summary demo_sum_result = Fin 2"
    "summary demo_result = Fin 1"
    by (simp_all add: demo_sum_result_def demo_result_def)
  note S1 = S [THEN conjunct1] and S2 = S [THEN conjunct2, THEN conjunct1]
    and S3 = S [THEN conjunct2, THEN conjunct2, THEN conjunct1]
    and S4 = S [THEN conjunct2, THEN conjunct2, THEN conjunct2]
  from demo_sum_contrast demo_select_ab ba bb S1 S2 S3 S4 v demo2_contrast M show ?thesis
    by (intro conjI)
qed












lemma demo_select_ba:
  "select_groups demo_table (Some [KStr ''b'', KStr ''a'']) = Inr ([Fin 1, Fin 3], [Fin 0, Fin 2])"
  by code_simp

lemma exact_pct_1: "pct_low_high exact_env 1 al = (0, 0)"
  unfolding pct_low_high_def index_of_prob_def
  by (cases "fst al"; cases "snd al")
     (simp_all add: fmul_def of_pyint_def np_round_def nan_to_num_def astype_int_def
        exact_env_def round_half_even_def)

lemma demo_boot_1:
  "sb_bootstrap exact_env [Fin x, Fin y] (default_mean exact_env None) 1 False demo_world
     = Inr ([Fin x], demo_world\<lparr>cursor := 2\<rparr>)"
  by (simp add: sb_bootstrap_resample resample_at_def demo_mean demo_world_def upt_conv_Cons)

lemma demo_boot_2:
  "sb_bootstrap exact_env [Fin x, Fin y] (default_mean exact_env None) 1 False (demo_world\<lparr>cursor := 2\<rparr>)
     = Inr ([Fin y], demo_world\<lparr>cursor := 4\<rparr>)"
  by (simp add: sb_bootstrap_resample resample_at_def demo_mean demo_world_def upt_conv_Cons)

lemma demo_contrast_ab:
  "bootstrap_contrast exact_env demo_table (Some [KStr ''a'', KStr ''b'']) None False (Fin (5 / 100)) 1 demo_world
   = Inr (demo_result_ab, demo_world\<lparr>cursor := 4\<rparr>)"
proof -
  have srt: "sort (map2 (fsub exact_env) [Fin 3] [Fin 0]) = [Fin 3]"
    by (simp add: exact_fsub)
  have ign: "wfilter (demo_world\<lparr>cursor := 4\<rparr>) = Ignore"
    by (simp add: demo_world_def module_filter_def)
  have ix: "np_index [Fin 3] 0 = Inr (Fin 3)" by (simp add: np_index_def)
  show ?thesis
    unfolding demo_result_ab_def
    using exact_contrast_run [OF demo_select_ab demo_boot_1 demo_boot_2 srt exact_pct_1 ign ix ix,
        of "Fin (5 / 100)"]
    by (simp add: demo_mean exact_fsub)
qed

lemma demo_contrast_ba:
  "bootstrap_contrast exact_env demo_table (Some [KStr ''b'', KStr ''a'']) None False (Fin (5 / 100)) 1 demo_world
   = Inr (demo_result_ba, demo_world\<lparr>cursor := 4\<rparr>)"
proof -
  have srt: "sort (map2 (fsub exact_env) [Fin 2] [Fin 1]) = [Fin 1]"
    by (simp add: exact_fsub)
  have ign: "wfilter (demo_world\<lparr>cursor := 4\<rparr>) = Ignore"
    by (simp add: demo_world_def module_filter_def)
  have ix: "np_index [Fin 1] 0 = Inr (Fin 1)" by (simp add: np_index_def)
  show ?thesis
    unfolding demo_result_ba_def
    using exact_contrast_run [OF demo_select_ba demo_boot_1 demo_boot_2 srt exact_pct_1 ign ix ix,
        of "Fin (5 / 100)"]
    by (simp add: demo_mean exact_fsub)
qed

lemma demo3_boot_b:
  "sb_bootstrap exact_env [Fin 1, Fin 3] (default_mean exact_env None) 2 False demo_world3
     = Inr ([Fin 3, Fin 1], demo_world3\<lparr>cursor := 4\<rparr>)"
  by (simp add: sb_bootstrap_resample resample_at_def demo_mean demo_world3_def upt_conv_Cons)

lemma demo3_boot_a:
  "sb_bootstrap exact_env [Fin 0, Fin 2] (default_mean exact_env None) 2 False (demo_world3\<lparr>cursor := 4\<rparr>)
     = Inr ([Fin 0, Fin 2], demo_world3\<lparr>cursor := 8\<rparr>)"
  by (simp add: sb_bootstrap_resample resample_at_def demo_mean demo_world3_def upt_conv_Cons)

lemma demo_contrast_mirror:
  "bootstrap_contrast exact_env demo_table (Some [KStr ''b'', KStr ''a'']) None False (Fin (5 / 100)) 2 demo_world3
   = Inr (demo_result_mirror, demo_world3\<lparr>cursor := 8\<rparr>)"
proof -
  have srt: "sort (map2 (fsub exact_env) [Fin 0, Fin 2] [Fin 3, Fin 1]) = [Fin (- 3), Fin 1]"
    by (simp add: exact_fsub less_eq_npfloat_def)
  have ign: "wfilter (demo_world3\<lparr>cursor := 8\<rparr>) = Ignore"
    by (simp add: demo_world3_def module_filter_def)
  have ix: "np_index [Fin (- 3), Fin 1] 0 = Inr (Fin (- 3))" "np_index [Fin (- 3), Fin 1] 1 = Inr (Fin 1)"
    by (simp_all add: np_index_def)
  show ?thesis
    unfolding demo_result_mirror_def
    using exact_contrast_run [OF demo_select_ba demo3_boot_b demo3_boot_a srt exact_pct_2 ign ix]
    by (simp add: demo_mean exact_fsub)
qed

section \<open>Exchanging the two groups\<close>

lemma select_groups_swap:
  assumes "select_groups data (Some [ka, kb]) = Inr (A, B)"
  shows "select_groups data (Some [kb, ka]) = Inr (B, A)"
  using assms unfolding select_groups_def Let_def
  by (auto simp: np_index_def split: option.splits key.splits if_splits)

lemma fsub_swap:
  assumes "rounding (rnd E)"
  shows "fsub E a b = fneg (fsub E b a)"
proof (cases a; cases b)
  fix x y assume "a = Fin x" "b = Fin y"
  then show ?thesis
    using rounding_neg [OF assms, of "y - x"] by (simp add: fsub_def fneg_def)
qed (simp_all add: fsub_def fneg_def)

text \<open>
  Claim C8, amended. For two groups selected in the two orders, the point estimate of one
  contrast is the negation of the other's. Each call draws its own resamples, so the
  interval bounds are not a function of the groups; when the second call's difference
  distribution is the reversed negation of the first's and the low and high indices
  mirror each other (they are non-negative and add up to \<open>reps - 1\<close>), the percentile
  bounds, and likewise the BCa bounds, swap and change sign.
\<close>

theorem contrast_symmetry:
  assumes c1: "bootstrap_contrast E data (Some [ka, kb]) statfunction smoothboot alpha reps w = Inr (r1, w1)"
    and c2: "bootstrap_contrast E data (Some [kb, ka]) statfunction smoothboot alpha reps v = Inr (r2, v1)"
    and R: "rounding (rnd E)"
  shows "summary r2 = fneg (summary r1)
    \<and> (diffarray r2 = rev (map fneg (diffarray r1)) \<longrightarrow>
         (0 \<le> fst (pct_low_high_indices r1) \<and> 0 \<le> snd (pct_low_high_indices r1)
            \<and> fst (pct_low_high_indices r1) + snd (pct_low_high_indices r1) = reps - 1
          \<longrightarrow> pct_low_high_indices r2 = pct_low_high_indices r1
            \<and> pct_ci_low r2 = fneg (pct_ci_high r1) \<and> pct_ci_high r2 = fneg (pct_ci_low r1))
       \<and> (0 \<le> fst (bca_low_high_indices r2) \<and> 0 \<le> snd (bca_low_high_indices r2)
            \<and> 0 \<le> fst (bca_low_high_indices r1) \<and> 0 \<le> snd (bca_low_high_indices r1)
            \<and> fst (bca_low_high_indices r2) + snd (bca_low_high_indices r1) = reps - 1
            \<and> snd (bca_low_high_indices r2) + fst (bca_low_high_indices r1) = reps - 1
          \<longrightarrow> bca_ci_low r2 = fneg (bca_ci_high r1) \<and> bca_ci_high r2 = fneg (bca_ci_low r1)))"
proof -
  let ?pct = "pct_low_high E reps (two_sided E alpha)"
  from c1 obtain A B rs wa es wb d1 bc1 where
    sel1: "select_groups data (Some [ka, kb]) = Inr (A, B)"
    and b1: "sb_bootstrap E A (default_mean E statfunction) reps smoothboot w = Inr (rs, wa)"
    and b2: "sb_bootstrap E B (default_mean E statfunction) reps smoothboot wa = Inr (es, wb)"
    and sub1: "np_sub E es rs = Inr d1"
    and ix1: "np_index (sort d1) (fst ?pct) = Inr (pct_ci_low r1)"
      "np_index (sort d1) (snd ?pct) = Inr (pct_ci_high r1)"
      "np_index (sort d1) (fst bc1) = Inr (bca_ci_low r1)"
      "np_index (sort d1) (snd bc1) = Inr (bca_ci_high r1)"
    and su1: "summary r1 = fsub E (default_mean E statfunction B) (default_mean E statfunction A)"
    and p1: "pct_low_high_indices r1 = ?pct"
    and bi1: "bca_low_high_indices r1 = bc1"
    and di1: "diffarray r1 = sort d1"
    by (rule bootstrap_contrast_cases)
  from c2 obtain A' B' d2 bc2 where
    sel2: "select_groups data (Some [kb, ka]) = Inr (A', B')"
    and ix2: "np_index (sort d2) (fst ?pct) = Inr (pct_ci_low r2)"
      "np_index (sort d2) (snd ?pct) = Inr (pct_ci_high r2)"
      "np_index (sort d2) (fst bc2) = Inr (bca_ci_low r2)"
      "np_index (sort d2) (snd bc2) = Inr (bca_ci_high r2)"
    and su2: "summary r2 = fsub E (default_mean E statfunction B') (default_mean E statfunction A')"
    and p2: "pct_low_high_indices r2 = ?pct"
    and bi2: "bca_low_high_indices r2 = bc2"
    and di2: "diffarray r2 = sort d2"
    by (rule bootstrap_contrast_cases)
  from select_groups_swap [OF sel1] sel2 have AB: "A' = B" "B' = A" by simp_all
  have s: "summary r2 = fneg (summary r1)"
    unfolding su1 su2 AB by (rule fsub_swap [OF R])
  have "d1 = map2 (fsub E) es rs"
    using sub1 sb_bootstrap_length [OF b1] sb_bootstrap_length [OF b2]
    by (simp add: np_sub_same_length)
  then have len: "length (sort d1) = nat reps"
    using sb_bootstrap_length [OF b1] sb_bootstrap_length [OF b2] by simp
  have flip: "y = fneg x"
    if m: "sort d2 = rev (map fneg (sort d1))"
      and i: "np_index (sort d2) i = Inr y" and j: "np_index (sort d1) j = Inr x"
      and r: "0 \<le> i" "0 \<le> j" "i + j = reps - 1" for i j x y
  proof -
    have li: "i < int (length (sort d1))" and lj: "j < int (length (sort d1))"
      using r len by linarith+
    have x: "x = sort d1 ! nat j"
      using j r(2) lj by (simp add: np_index_in_range)
    have "y = rev (map fneg (sort d1)) ! nat i"
      using i r(1) li unfolding m by (simp add: np_index_in_range)
    also have "\<dots> = map fneg (sort d1) ! (length (sort d1) - Suc (nat i))"
      using r(1) li by (simp add: rev_nth)
    also have "length (sort d1) - Suc (nat i) = nat j"
      using r len by linarith
    finally show ?thesis using x r(2) lj by simp
  qed
  show ?thesis
    unfolding p1 p2 bi1 bi2 di1 di2
    using s flip [OF _ ix2(1) ix1(2)] flip [OF _ ix2(2) ix1(1)]
      flip [OF _ ix2(3) ix1(4)] flip [OF _ ix2(4) ix1(3)]
    by (auto simp: add.commute)
qed

theorem contrast_symmetry_witness:
  "bootstrap_contrast exact_env demo_table (Some [KStr ''a'', KStr ''b'']) None False (Fin (5 / 100)) 2 demo_world2
     = Inr (demo_result, demo_world2\<lparr>cursor := 8\<rparr>)
   \<and> bootstrap_contrast exact_env demo_table (Some [KStr ''b'', KStr ''a'']) None False (Fin (5 / 100)) 2 demo_world3
     = Inr (demo_result_mirror, demo_world3\<lparr>cursor := 8\<rparr>)
   \<and> rounding (rnd exact_env)
   \<and> diffarray demo_result_mirror = rev (map fneg (diffarray demo_result))
   \<and> fst (pct_low_high_indices demo_result) + snd (pct_low_high_indices demo_result) = 2 - 1
   \<and> summary demo_result_mirror = fneg (summary demo_result)
   \<and> pct_ci_low demo_result_mirror = fneg (pct_ci_high demo_result)
   \<and> pct_ci_high demo_result_mirror = fneg (pct_ci_low demo_result)
   \<and> bca_ci_low demo_result_mirror = fneg (bca_ci_high demo_result)
   \<and> bca_ci_high demo_result_mirror = fneg (bca_ci_low demo_result)"
proof -
  have m: "diffarray demo_result_mirror = rev (map fneg (diffarray demo_result))"
    by (simp add: demo_result_def demo_result_mirror_def fneg_def)
  have i: "pct_low_high_indices demo_result = (0, 1)" "bca_low_high_indices demo_result = (0, 1)"
    "bca_low_high_indices demo_result_mirror = (0, 1)"
    by (simp_all add: demo_result_def demo_result_mirror_def)
  from contrast_symmetry [OF demo2_contrast demo_contrast_mirror rounding_exact_env] m
  have "summary demo_result_mirror = fneg (summary demo_result)
      \<and> pct_ci_low demo_result_mirror = fneg (pct_ci_high demo_result)
      \<and> pct_ci_high demo_result_mirror = fneg (pct_ci_low demo_result)
      \<and> bca_ci_low demo_result_mirror = fneg (bca_ci_high demo_result)
      \<and> bca_ci_high demo_result_mirror = fneg (bca_ci_low demo_result)"
    by (simp add: i)
  then show ?thesis
    using demo2_contrast demo_contrast_mirror rounding_exact_env m by (simp add: i)
qed

text \<open>
  The claim as stated fails: with one replicate and both calls reading the same draws,
  the contrast of \<open>b\<close> against \<open>a\<close> has both percentile bounds at 3 and the contrast of
  \<open>a\<close> against \<open>b\<close> has them at 1, not at \<open>- 3\<close>.
\<close>

theorem contrast_symmetry_counterexample:
  "bootstrap_contrast exact_env demo_table (Some [KStr ''a'', KStr ''b'']) None False (Fin (5 / 100)) 1 demo_world
     = Inr (demo_result_ab, demo_world\<lparr>cursor := 4\<rparr>)
   \<and> bootstrap_contrast exact_env demo_table (Some [KStr ''b'', KStr ''a'']) None False (Fin (5 / 100)) 1 demo_world
     = Inr (demo_result_ba, demo_world\<lparr>cursor := 4\<rparr>)
   \<and> pct_ci_low demo_result_ab = Fin 3 \<and> pct_ci_high demo_result_ab = Fin 3
   \<and> pct_ci_low demo_result_ba = Fin 1 \<and> pct_ci_high demo_result_ba = Fin 1
   \<and> pct_ci_low demo_result_ba \<noteq> fneg (pct_ci_high demo_result_ab)
   \<and> pct_ci_high demo_result_ba \<noteq> fneg (pct_ci_low demo_result_ab)
   \<and> bca_ci_low demo_result_ba \<noteq> fneg (bca_ci_high demo_result_ab)
   \<and> bca_ci_high demo_result_ba \<noteq> fneg (bca_ci_low demo_result_ab)"
  using demo_contrast_ab demo_contrast_ba
  by (simp add: demo_result_ab_def demo_result_ba_def fneg_def)


section \<open>The default selector\<close>




















section \<open>Selectors that do not name two groups\<close>

lemma idx_to_levels_KStr: "idx_to_levels levels (KStr s) = None"
  unfolding idx_to_levels_def
  by (auto simp: map_of_eq_None_iff dest!: set_zip_leftD)

lemma arraylist_filter:
  "arraylist data levels idx = arraylist data levels (filter (resolves levels) idx)"
  by (induction idx)
     (auto simp: resolves_def idx_to_levels_KStr split: option.splits key.splits)

lemma arraylist_length:
  "length (arraylist data levels idx) = length (filter (resolves levels) idx)"
  by (induction idx)
     (auto simp: resolves_def idx_to_levels_KStr split: option.splits key.splits)

lemma arraylist_append:
  "arraylist data levels (xs @ ys) = arraylist data levels xs @ arraylist data levels ys"
  by (induction xs) (auto split: option.splits key.splits)

lemma select_groups_few:
  assumes "length (filter (resolves (unique (map fst data))) idx) < 2"
  shows "select_groups data (Some idx) = Inl IndexError"
proof -
  have "length (arraylist data (unique (map fst data)) idx) < 2"
    using assms by (simp add: arraylist_length)
  then show ?thesis
    unfolding select_groups_def Let_def
    by (cases "arraylist data (unique (map fst data)) idx")
       (auto simp: np_index_def split: if_splits)
qed

lemma select_groups_no_invalid: "select_groups data idx \<noteq> Inl InvalidInputError"
  unfolding select_groups_def Let_def
  by (auto simp: np_index_def split: sum.splits if_splits)

lemma select_groups_first_two:
  assumes "2 \<le> length (filter (resolves (unique (map fst data))) idx)"
  shows "select_groups data (Some idx)
       = select_groups data (Some (take 2 (filter (resolves (unique (map fst data))) idx)))"
proof -
  let ?lv = "unique (map fst data)"
  let ?f = "filter (resolves ?lv) idx"
  have a: "arraylist data ?lv idx = arraylist data ?lv ?f"
    by (rule arraylist_filter)
  have "?f = take 2 ?f @ drop 2 ?f" by simp
  then have "arraylist data ?lv ?f = arraylist data ?lv (take 2 ?f) @ arraylist data ?lv (drop 2 ?f)"
    using arraylist_append [of data ?lv "take 2 ?f" "drop 2 ?f"] by simp
  moreover have "length (arraylist data ?lv (take 2 ?f)) = 2"
  proof -
    have "filter (resolves ?lv) (take 2 ?f) = take 2 ?f"
      by (rule filter_True) (auto dest: in_set_takeD)
    then show ?thesis using assms by (simp add: arraylist_length)
  qed
  ultimately have e:
    "np_index (arraylist data ?lv idx) 0 = np_index (arraylist data ?lv (take 2 ?f)) 0"
    "np_index (arraylist data ?lv idx) 1 = np_index (arraylist data ?lv (take 2 ?f)) 1"
    unfolding a by (simp_all add: np_index_def nth_append)
  show ?thesis
    unfolding select_groups_def Let_def option.case e ..
qed

text \<open>
  Claim C9, amended. The two-group contrast passes over selector entries that are neither
  a level nor a position of a level. When fewer than two entries resolve, it fails with
  \<^verbatim>\<open>IndexError\<close> before any resampling; when two or more resolve, it behaves as on the
  first two of them and ignores the rest. The paired contrast, given a selector of strings
  whose length is not 2, leaves through \<^verbatim>\<open>sys.exit(0)\<close>. Neither selector resolution
  yields \<open>InvalidInputError\<close>.
\<close>

theorem unresolved_selector:
  shows "(length (filter (resolves (unique (map fst data))) idx) < 2 \<longrightarrow>
            bootstrap_contrast E data (Some idx) statfunction smoothboot alpha reps w = Inl IndexError)
    \<and> (2 \<le> length (filter (resolves (unique (map fst data))) idx) \<longrightarrow>
            bootstrap_contrast E data (Some idx) statfunction smoothboot alpha reps w
          = bootstrap_contrast E data (Some (take 2 (filter (resolves (unique (map fst data))) idx)))
              statfunction smoothboot alpha reps w)
    \<and> select_groups data sel \<noteq> Inl InvalidInputError
    \<and> (list_all is_str l \<and> length l \<noteq> 2 \<longrightarrow> pairedcontrast_idx levels (Some l) = Inl SystemExit)
    \<and> pairedcontrast_idx levels pidx \<noteq> Inl InvalidInputError"
proof -
  have 1: "bootstrap_contrast E data (Some idx) statfunction smoothboot alpha reps w = Inl IndexError"
    if "length (filter (resolves (unique (map fst data))) idx) < 2"
    unfolding bootstrap_contrast_def Let_def select_groups_few [OF that] by simp
  have 2: "bootstrap_contrast E data (Some idx) statfunction smoothboot alpha reps w
          = bootstrap_contrast E data (Some (take 2 (filter (resolves (unique (map fst data))) idx)))
              statfunction smoothboot alpha reps w"
    if "2 \<le> length (filter (resolves (unique (map fst data))) idx)"
    unfolding bootstrap_contrast_def Let_def select_groups_first_two [OF that] ..
  have 3: "pairedcontrast_idx levels (Some l) = Inl SystemExit" if "list_all is_str l" "length l \<noteq> 2"
    using that unfolding pairedcontrast_idx_def by simp
  have 4: "pairedcontrast_idx levels pidx \<noteq> Inl InvalidInputError"
    unfolding pairedcontrast_idx_def by (simp split: option.splits)
  show ?thesis
    using 1 2 3 4 select_groups_no_invalid by blast
qed


lemma demo_resolves_one:
  "filter (resolves (unique (map fst demo_table))) [KStr ''zzz''] = []"
  by code_simp

lemma demo_resolves_three:
  "filter (resolves (unique (map fst demo_table))) [KStr ''a'', KStr ''zzz'', KStr ''b'']
     = [KStr ''a'', KStr ''b'']"
  by code_simp

lemma demo_select_zzz: "select_groups demo_table (Some [KStr ''zzz'']) = Inl IndexError"
  by code_simp

lemma demo_contrast_zzz:
  "bootstrap_contrast exact_env demo_table (Some [KStr ''zzz'']) None False (Fin (5 / 100)) 2 demo_world2
     = Inl IndexError"
  unfolding bootstrap_contrast_def Let_def demo_select_zzz by simp

lemma demo_select_three:
  "select_groups demo_table (Some [KStr ''a'', KStr ''zzz'', KStr ''b'']) = Inr ([Fin 0, Fin 2], [Fin 1, Fin 3])"
  by code_simp

lemma demo_contrast_three:
  "bootstrap_contrast exact_env demo_table (Some [KStr ''a'', KStr ''zzz'', KStr ''b'']) None False
     (Fin (5 / 100)) 2 demo_world2
   = Inr (demo_result, demo_world2\<lparr>cursor := 8\<rparr>)"
proof -
  have srt: "sort (map2 (fsub exact_env) [Fin 3, Fin 1] [Fin 0, Fin 2]) = [Fin (- 1), Fin 3]"
    by (simp add: exact_fsub less_eq_npfloat_def)
  have ign: "wfilter (demo_world2\<lparr>cursor := 8\<rparr>) = Ignore"
    by (simp add: demo_world2_def module_filter_def)
  have ix: "np_index [Fin (- 1), Fin 3] 0 = Inr (Fin (- 1))" "np_index [Fin (- 1), Fin 3] 1 = Inr (Fin 3)"
    by (simp_all add: np_index_def)
  show ?thesis
    unfolding demo_result_def
    using exact_contrast_run [OF demo_select_three demo2_boot_a demo2_boot_b srt exact_pct_2 ign ix]
    by (simp add: demo_mean exact_fsub)
qed

lemma demo_paired_idx: "pairedcontrast_idx [''a'', ''b''] (Some [PStr ''a'']) = Inl SystemExit"
  by (simp add: pairedcontrast_idx_def is_str_def)

theorem unresolved_selector_witness:
  "length (filter (resolves (unique (map fst demo_table))) [KStr ''zzz'']) < 2
   \<and> bootstrap_contrast exact_env demo_table (Some [KStr ''zzz'']) None False (Fin (5 / 100)) 2 demo_world2
       = Inl IndexError
   \<and> 2 \<le> length (filter (resolves (unique (map fst demo_table))) [KStr ''a'', KStr ''zzz'', KStr ''b''])
   \<and> bootstrap_contrast exact_env demo_table (Some [KStr ''a'', KStr ''zzz'', KStr ''b'']) None False
        (Fin (5 / 100)) 2 demo_world2
       = bootstrap_contrast exact_env demo_table (Some [KStr ''a'', KStr ''b'']) None False
        (Fin (5 / 100)) 2 demo_world2
   \<and> list_all is_str [PStr ''a''] \<and> length [PStr ''a''] \<noteq> 2
   \<and> pairedcontrast_idx [''a'', ''b''] (Some [PStr ''a'']) = Inl SystemExit"
proof -
  note A = unresolved_selector [where data = demo_table and idx = "[KStr ''zzz'']" and E = exact_env
      and statfunction = None and smoothboot = False and alpha = "Fin (5 / 100)" and reps = 2
      and w = demo_world2 and l = "[PStr ''a'']" and levels = "[''a'', ''b'']"]
  note B = unresolved_selector [where data = demo_table and idx = "[KStr ''a'', KStr ''zzz'', KStr ''b'']"
      and E = exact_env and statfunction = None and smoothboot = False and alpha = "Fin (5 / 100)"
      and reps = 2 and w = demo_world2]
  have 1: "bootstrap_contrast exact_env demo_table (Some [KStr ''zzz'']) None False (Fin (5 / 100)) 2 demo_world2
       = Inl IndexError"
    using A [THEN conjunct1, unfolded demo_resolves_one] by simp
  have 2: "bootstrap_contrast exact_env demo_table (Some [KStr ''a'', KStr ''zzz'', KStr ''b'']) None False
        (Fin (5 / 100)) 2 demo_world2
       = bootstrap_contrast exact_env demo_table (Some [KStr ''a'', KStr ''b'']) None False
        (Fin (5 / 100)) 2 demo_world2"
    using B [THEN conjunct2, THEN conjunct1, unfolded demo_resolves_three] by simp
  have 3: "pairedcontrast_idx [''a'', ''b''] (Some [PStr ''a'']) = Inl SystemExit"
    using A [THEN conjunct2, THEN conjunct2, THEN conjunct2, THEN conjunct1]
    by (simp add: is_str_def)
  show ?thesis
    unfolding demo_resolves_one demo_resolves_three
    using 1 2 3 by (simp add: is_str_def)
qed

text \<open>
  A selector whose only entry is absent from the table ends in \<^verbatim>\<open>IndexError\<close>; a
  selector of three entries, one of them absent, returns a result for the other two.
\<close>

theorem unresolved_selector_counterexample:
  "bootstrap_contrast exact_env demo_table (Some [KStr ''zzz'']) None False (Fin (5 / 100)) 2 demo_world2
     = Inl IndexError
   \<and> bootstrap_contrast exact_env demo_table (Some [KStr ''zzz'']) None False (Fin (5 / 100)) 2 demo_world2
     \<noteq> Inl InvalidInputError
   \<and> bootstrap_contrast exact_env demo_table (Some [KStr ''a'', KStr ''zzz'', KStr ''b'']) None False
        (Fin (5 / 100)) 2 demo_world2
     = Inr (demo_result, demo_world2\<lparr>cursor := 8\<rparr>)
   \<and> pairedcontrast_idx [''a'', ''b''] (Some [PStr ''a'']) = Inl SystemExit
   \<and> pairedcontrast_idx [''a'', ''b''] (Some [PStr ''a'']) \<noteq> Inl InvalidInputError"
  using demo_contrast_zzz demo_contrast_three demo_paired_idx by simp

section \<open>The empty sample\<close>

lemma world_cursor_same [simp]: "w\<lparr>cursor := cursor w\<rparr> = w"
  by simp

lemma resample_draw_empty:
  "resample_draw E [] w = (if randint_checks_empty E then Inl ValueError else Inr ([], w))"
  unfolding resample_draw_def randint_def by simp

lemma boot_loop_const:
  "draw = (\<lambda>v. Inr (s, v)) \<Longrightarrow> boot_loop draw func k w = Inr (replicate k (func s), w)"
  by (induction k) simp_all

lemma boot_loop_fail:
  "draw = (\<lambda>v. Inl e) \<Longrightarrow> boot_loop draw func (Suc k) w = Inl e"
  by simp

lemma sb_bootstrap_empty:
  "sb_bootstrap E [] func reps False w =
     (if 1 \<le> reps \<and> randint_checks_empty E then Inl ValueError
      else Inr (replicate (nat reps) (func []), w))"
proof (cases "randint_checks_empty E")
  case True
  then have d: "resample_draw E [] = (\<lambda>v. Inl ValueError)"
    by (simp add: resample_draw_empty fun_eq_iff)
  show ?thesis
  proof (cases "1 \<le> reps")
    case r: True
    then obtain k where k: "nat reps = Suc k" by (cases "nat reps") simp_all
    show ?thesis unfolding sb_bootstrap_def using True r k boot_loop_fail [OF d] by simp
  next
    case False
    then have "nat reps = 0" by simp
    then show ?thesis unfolding sb_bootstrap_def using False by simp
  qed
next
  case False
  then have d: "resample_draw E [] = (\<lambda>v. Inr ([], v))"
    by (simp add: resample_draw_empty fun_eq_iff)
  show ?thesis unfolding sb_bootstrap_def using False boot_loop_const [OF d] by simp
qed

lemma np_index_error: "np_index xs i = Inl e \<Longrightarrow> e = IndexError"
  unfolding np_index_def by (simp split: if_splits)

lemma np_take_error: "np_take a is = Inl e \<Longrightarrow> e = IndexError"
  by (induction "is") (auto split: sum.splits dest: np_index_error)

lemma resample_draw_error: "resample_draw E a w = Inl e \<Longrightarrow> e = ValueError \<or> e = IndexError"
  unfolding resample_draw_def randint_def
  by (auto split: if_splits sum.splits prod.splits dest: np_take_error)

lemma boot_loop_error:
  "boot_loop draw func k w = Inl e \<Longrightarrow> \<exists>v. draw v = Inl e"
proof (induction k arbitrary: w)
  case 0
  then show ?case by simp
next
  case (Suc k)
  then show ?case by (auto split: sum.splits prod.splits)
qed

lemma sb_bootstrap_error:
  assumes "sb_bootstrap E a func n smooth w = Inl e"
  shows "e = ValueError \<or> e = IndexError \<or> kde_fit E a = Some e"
proof (cases smooth)
  case True
  show ?thesis
  proof (cases "kde_fit E a")
    case None
    with assms True have "boot_loop (kde_draw E a) func (nat n) w = Inl e"
      by (simp add: sb_bootstrap_def)
    from boot_loop_error [OF this] show ?thesis
      by (auto simp: kde_draw_def split: prod.splits)
  next
    case (Some x)
    with assms True show ?thesis by (simp add: sb_bootstrap_def)
  qed
next
  case False
  with assms have "boot_loop (resample_draw E a) func (nat n) w = Inl e"
    by (simp add: sb_bootstrap_def)
  from boot_loop_error [OF this] resample_draw_error show ?thesis by blast
qed

lemma warn_error: "warn msg w = Inl e \<Longrightarrow> e = UserWarning"
  unfolding warn_def by (cases "wfilter w") simp_all

lemma stability_warnings_error: "stability_warnings reps pct bc w = Inl e \<Longrightarrow> e = UserWarning"
  unfolding stability_warnings_def check_indices_def
  by (auto split: sum.splits if_splits dest: warn_error)

lemma bca_error: "bca E d al st f os reps = Inl e \<Longrightarrow> bca_avals E d al st f os reps = Inl e"
  unfolding bca_def by (simp split: sum.splits)

lemma bootstrap_error:
  assumes "bootstrap E data statfunction smoothboot alpha reps w = Inl e"
  shows "e = ValueError \<or> e = IndexError \<or> e = UserWarning \<or> kde_fit E data = Some e
    \<or> (\<exists>st. bca_avals E data (two_sided E alpha) st (default_mean E statfunction)
            (default_mean E statfunction data) reps = Inl e)"
  using assms unfolding bootstrap_def Let_def
  by (auto split: sum.splits prod.splits
      dest: sb_bootstrap_error bca_error stability_warnings_error np_index_error)

text \<open>
  Claim C4, amended. \<^verbatim>\<open>bootstrap\<close> does not validate its sample and, unless a library
  call itself raises it, never fails with \<open>InvalidInputError\<close>. For an empty sample,
  without smoothing: with at least one replicate and a \<^verbatim>\<open>randint\<close> that rejects the
  empty range, the call fails with that \<^verbatim>\<open>ValueError\<close> and returns no record; otherwise
  the statistic is applied to empty resamples, and a record that is returned has the
  statistic of the empty sample as its summary and \<open>reps\<close> copies of it as its
  distribution.
\<close>

theorem bootstrap_empty_sample:
  "(1 \<le> reps \<and> randint_checks_empty E \<longrightarrow>
      bootstrap E [] statfunction False alpha reps w = Inl ValueError)
   \<and> ((reps < 1 \<or> \<not> randint_checks_empty E)
        \<and> bootstrap E [] statfunction False alpha reps w = Inr (r, w') \<longrightarrow>
      summary r = default_mean E statfunction []
      \<and> stat_array r = replicate (nat reps) (default_mean E statfunction []))
   \<and> ((\<forall>a. kde_fit E a \<noteq> Some InvalidInputError)
        \<and> (\<forall>d al st f os n. bca_avals E d al st f os n \<noteq> Inl InvalidInputError) \<longrightarrow>
      bootstrap E data statfunction smoothboot alpha reps w \<noteq> Inl InvalidInputError)"
proof -
  have 1: "bootstrap E [] statfunction False alpha reps w = Inl ValueError"
    if "1 \<le> reps" "randint_checks_empty E"
    unfolding bootstrap_def Let_def sb_bootstrap_empty using that by simp
  have 2: "summary r = default_mean E statfunction []
      \<and> stat_array r = replicate (nat reps) (default_mean E statfunction [])"
    if c: "reps < 1 \<or> \<not> randint_checks_empty E"
      and b: "bootstrap E [] statfunction False alpha reps w = Inr (r, w')"
  proof -
    from b obtain boots w1 where
      sb: "sb_bootstrap E [] (default_mean E statfunction) reps False w = Inr (boots, w1)"
      and su: "summary r = default_mean E statfunction []"
      and sa: "stat_array r = sort boots"
      by (rule bootstrap_cases)
    from sb c have "boots = replicate (nat reps) (default_mean E statfunction [])"
      by (auto simp: sb_bootstrap_empty split: if_splits)
    with su sa show ?thesis by simp
  qed
  have 3: "bootstrap E data statfunction smoothboot alpha reps w \<noteq> Inl InvalidInputError"
    if "\<forall>a. kde_fit E a \<noteq> Some InvalidInputError"
      "\<forall>d al st f os n. bca_avals E d al st f os n \<noteq> Inl InvalidInputError"
    using that bootstrap_error [of E data statfunction smoothboot alpha reps w InvalidInputError]
    by blast
  from 1 2 3 show ?thesis by (intro conjI impI; (elim conjE)?; blast)
qed

lemma lenient_pct_2: "pct_low_high lenient_env 2 (two_sided lenient_env (Fin (5 / 100))) = (0, 1)"
  by (simp add: pct_low_high_def two_sided_def fhalf_def fsub_def index_of_prob_def fmul_def
      of_pyint_def np_round_def nan_to_num_def astype_int_def exact_env_def lenient_env_def
      round_half_even_def)

lemma lenient_bca: "bca lenient_env ds al st f os reps = Inr (pct_low_high lenient_env reps al)"
  by (simp add: bca_def exact_env_def lenient_env_def pct_low_high_def)

lemma mean_empty: "default_mean lenient_env None [] = NaN"
  by (simp add: default_mean_def lenient_env_def exact_env_def exact_mean_def)

lemma bootstrap_empty_strict:
  "bootstrap exact_env [] None False (Fin (5 / 100)) 3000 demo_world = Inl ValueError"
  unfolding bootstrap_def Let_def sb_bootstrap_empty by (simp add: exact_env_def)

lemma bootstrap_empty_lenient:
  "bootstrap lenient_env [] None False (Fin (5 / 100)) 2 demo_world = Inr (nan_result, demo_world)"
proof -
  let ?al = "two_sided lenient_env (Fin (5 / 100))"
  have sb: "sb_bootstrap lenient_env [] (default_mean lenient_env None) 2 False demo_world = Inr ([NaN, NaN], demo_world)"
    unfolding sb_bootstrap_empty mean_empty
    by (simp add: lenient_env_def exact_env_def numeral_2_eq_2)
  have srt: "sort [NaN, NaN] = [NaN, NaN]" by simp
  have bc: "bca lenient_env [] ?al (sort [NaN, NaN]) (default_mean lenient_env None) (default_mean lenient_env None []) 2 = Inr (0, 1)"
    unfolding lenient_bca lenient_pct_2 ..
  have sw: "stability_warnings 2 (pct_low_high lenient_env 2 ?al) (0, 1) demo_world = Inr demo_world"
    by (rule stability_warnings_Ignore) (simp add: demo_world_def module_filter_def)
  have i1: "np_index (sort [NaN, NaN]) (fst (pct_low_high lenient_env 2 ?al)) = Inr NaN"
    unfolding lenient_pct_2 srt by (simp add: np_index_def)
  have i2: "np_index (sort [NaN, NaN]) (snd (pct_low_high lenient_env 2 ?al)) = Inr NaN"
    unfolding lenient_pct_2 srt by (simp add: np_index_def)
  have i3: "np_index (sort [NaN, NaN]) (fst (0, 1)) = Inr NaN"
    unfolding srt by (simp add: np_index_def)
  have i4: "np_index (sort [NaN, NaN]) (snd (0, 1)) = Inr NaN"
    unfolding srt by (simp add: np_index_def)
  note st = bootstrap_steps [OF sb bc sw i1 i2 i3 i4]
  show ?thesis
    unfolding nan_result_def
    using st [unfolded lenient_pct_2 srt mean_empty] by simp
qed

theorem bootstrap_empty_sample_witness:
  "(1::int) \<le> 3000 \<and> randint_checks_empty exact_env
   \<and> bootstrap exact_env [] None False (Fin (5 / 100)) 3000 demo_world = Inl ValueError
   \<and> \<not> randint_checks_empty lenient_env
   \<and> bootstrap lenient_env [] None False (Fin (5 / 100)) 2 demo_world = Inr (nan_result, demo_world)
   \<and> summary nan_result = default_mean lenient_env None []
   \<and> stat_array nan_result = replicate (nat 2) (default_mean lenient_env None [])
   \<and> (\<forall>a. kde_fit exact_env a \<noteq> Some InvalidInputError)
   \<and> (\<forall>d al st f os n. bca_avals exact_env d al st f os n \<noteq> Inl InvalidInputError)
   \<and> bootstrap exact_env [] None False (Fin (5 / 100)) 3000 demo_world \<noteq> Inl InvalidInputError"
proof -
  have c: "randint_checks_empty exact_env" "\<not> randint_checks_empty lenient_env"
    "\<forall>a. kde_fit exact_env a \<noteq> Some InvalidInputError"
    "\<forall>d al st f os n. bca_avals exact_env d al st f os n \<noteq> Inl InvalidInputError"
    by (simp_all add: exact_env_def lenient_env_def)
  note A = bootstrap_empty_sample [where E = exact_env and reps = 3000 and statfunction = None
      and alpha = "Fin (5 / 100)" and w = demo_world and data = "[]" and smoothboot = False]
  note B = bootstrap_empty_sample [where E = lenient_env and reps = 2 and statfunction = None
      and alpha = "Fin (5 / 100)" and w = demo_world and r = nan_result and w' = demo_world]
  have 1: "bootstrap exact_env [] None False (Fin (5 / 100)) 3000 demo_world = Inl ValueError"
    using A [THEN conjunct1] c(1) by simp
  have 2: "summary nan_result = default_mean lenient_env None []
      \<and> stat_array nan_result = replicate (nat 2) (default_mean lenient_env None [])"
    using B [THEN conjunct2, THEN conjunct1] c(2) bootstrap_empty_lenient by blast
  have 3: "bootstrap exact_env [] None False (Fin (5 / 100)) 3000 demo_world \<noteq> Inl InvalidInputError"
    using A [THEN conjunct2, THEN conjunct2] c(3,4) by blast
  show ?thesis
    using 1 2 3 c bootstrap_empty_lenient by (intro conjI) simp_all
qed

text \<open>
  The empty sample under both behaviours of \<^verbatim>\<open>randint\<close>: a \<^verbatim>\<open>ValueError\<close> from the
  library, or a record filled with NaN.
\<close>

theorem bootstrap_empty_sample_counterexample:
  "bootstrap exact_env [] None False (Fin (5 / 100)) 3000 demo_world = Inl ValueError
   \<and> bootstrap exact_env [] None False (Fin (5 / 100)) 3000 demo_world \<noteq> Inl InvalidInputError
   \<and> bootstrap lenient_env [] None False (Fin (5 / 100)) 2 demo_world = Inr (nan_result, demo_world)
   \<and> bootstrap lenient_env [] None False (Fin (5 / 100)) 2 demo_world \<noteq> Inl InvalidInputError"
  using bootstrap_empty_strict bootstrap_empty_lenient by simp

section \<open>Stability warnings\<close>

lemma pair_warning_iff:
  "pair_warning reps ind \<noteq> [] \<longleftrightarrow> unstable reps (fst ind) \<or> unstable reps (snd ind)"
  unfolding pair_warning_def unstable_def by auto

lemma check_indices_Always:
  "wfilter w = Always \<Longrightarrow>
     check_indices reps ind w = Inr (w\<lparr>shown := shown w @ pair_warning reps ind\<rparr>)"
  unfolding check_indices_def pair_warning_def unstable_def
  by (auto simp: warn_Always)

lemma stability_warnings_Always:
  assumes "wfilter w = Always"
  shows "stability_warnings reps pct bc w
     = Inr (w\<lparr>shown := shown w @ pair_warning reps pct @ pair_warning reps bc\<rparr>)"
  unfolding stability_warnings_def
  by (simp add: check_indices_Always assms)

lemma stability_warnings_shown:
  assumes "stability_warnings reps pct bc w = Inr w'"
  shows "(wfilter w = Ignore \<longrightarrow> shown w' = shown w)
    \<and> (wfilter w = Always \<longrightarrow> shown w' = shown w @ pair_warning reps pct @ pair_warning reps bc)"
  using assms
  by (auto simp: stability_warnings_Ignore stability_warnings_Always)

lemma bootstrap_no_UserWarning:
  assumes f: "wfilter w \<noteq> Error"
    and k: "\<forall>a. kde_fit E a \<noteq> Some UserWarning"
    and b: "\<forall>d al st f os n. bca_avals E d al st f os n \<noteq> Inl UserWarning"
  shows "bootstrap E data statfunction smoothboot alpha reps w \<noteq> Inl UserWarning"
proof
  assume a: "bootstrap E data statfunction smoothboot alpha reps w = Inl UserWarning"
  let ?sf = "default_mean E statfunction"
  let ?pct = "pct_low_high E reps (two_sided E alpha)"
  show False
  proof (cases "sb_bootstrap E data ?sf reps smoothboot w")
    case (Inl e)
    with a have "e = UserWarning" by (simp add: bootstrap_def Let_def)
    with sb_bootstrap_error [OF Inl [unfolded \<open>e = UserWarning\<close>]] k show False by blast
  next
    case (Inr p)
    obtain boots w1 where p: "p = (boots, w1)" by (cases p)
    note sb = Inr [unfolded p]
    have fw: "wfilter w1 \<noteq> Error" using sb_bootstrap_frame [OF sb] f by simp
    show False
    proof (cases "bca E data (two_sided E alpha) (sort boots) ?sf (?sf data) reps")
      case (Inl e)
      with a sb have "e = UserWarning" by (simp add: bootstrap_def Let_def)
      with bca_error [OF Inl] b show False by blast
    next
      case bc: (Inr bc)
      from stability_warnings_not_Error [OF fw] obtain w2 where
        sw: "stability_warnings reps ?pct bc w1 = Inr w2" by blast
      from a sb bc sw show False
        by (auto simp: bootstrap_def Let_def split: sum.splits dest: np_index_error)
    qed
  qed
qed

lemma np_sub_error: "np_sub E a b = Inl e \<Longrightarrow> e = ValueError"
  unfolding np_sub_def by (simp split: if_splits)

lemma select_groups_error: "select_groups data idx = Inl e \<Longrightarrow> e = IndexError"
  unfolding select_groups_def Let_def
  by (auto split: sum.splits dest: np_index_error)

lemma bootstrap_contrast_no_UserWarning:
  assumes f: "wfilter w \<noteq> Error"
    and k: "\<forall>a. kde_fit E a \<noteq> Some UserWarning"
    and b: "\<forall>d al st f os n. bca_avals E d al st f os n \<noteq> Inl UserWarning"
    and t: "\<forall>x y. ttest_ind E x y \<noteq> Inl UserWarning"
    and m: "\<forall>x y. mannwhitneyu E x y \<noteq> Inl UserWarning"
  shows "bootstrap_contrast E data idx statfunction smoothboot alpha reps w \<noteq> Inl UserWarning"
proof
  assume a: "bootstrap_contrast E data idx statfunction smoothboot alpha reps w = Inl UserWarning"
  let ?sf = "default_mean E statfunction"
  let ?pct = "pct_low_high E reps (two_sided E alpha)"
  show False
  proof (cases "select_groups data idx")
    case (Inl e)
    with a select_groups_error [OF Inl] show False
      by (simp add: bootstrap_contrast_def Let_def)
  next
    case (Inr g)
    obtain ra ea where g: "g = (ra, ea)" by (cases g)
    note sel = Inr [unfolded g]
    show False
    proof (cases "sb_bootstrap E ra ?sf reps smoothboot w")
      case (Inl e)
      with a sel have "e = UserWarning" by (simp add: bootstrap_contrast_def Let_def)
      with sb_bootstrap_error [OF Inl [unfolded \<open>e = UserWarning\<close>]] k show False by blast
    next
      case (Inr p)
      obtain rs w1 where p: "p = (rs, w1)" by (cases p)
      note b1 = Inr [unfolded p]
      show False
      proof (cases "sb_bootstrap E ea ?sf reps smoothboot w1")
        case (Inl e)
        with a sel b1 have "e = UserWarning" by (simp add: bootstrap_contrast_def Let_def)
        with sb_bootstrap_error [OF Inl [unfolded \<open>e = UserWarning\<close>]] k show False by blast
      next
        case (Inr q)
        obtain es w2 where q: "q = (es, w2)" by (cases q)
        note b2 = Inr [unfolded q]
        have fw: "wfilter w2 \<noteq> Error"
          using sb_bootstrap_frame [OF b1] sb_bootstrap_frame [OF b2] f by simp
        show False
        proof (cases "np_sub E es rs")
          case (Inl e)
          with a sel b1 b2 np_sub_error [OF Inl] show False
            by (simp add: bootstrap_contrast_def Let_def)
        next
          case d: (Inr d)
          show False
          proof (cases "bca E (sort d) (two_sided E alpha) (sort d) ?sf (fsub E (?sf ea) (?sf ra)) reps")
            case (Inl e)
            with a sel b1 b2 d have "e = UserWarning" by (simp add: bootstrap_contrast_def Let_def)
            with bca_error [OF Inl] b show False by blast
          next
            case bc: (Inr bc)
            from stability_warnings_not_Error [OF fw] obtain w3 where
              sw: "stability_warnings reps ?pct bc w2 = Inr w3" by blast
            from a sel b1 b2 d bc sw t m show False
              by (auto simp: bootstrap_contrast_def Let_def split: sum.splits dest: np_index_error)
          qed
        qed
      qed
    qed
  qed
qed

text \<open>
  Claim C3, amended. After both index pairs are computed, \<^verbatim>\<open>warnings.warn\<close> is called
  for each pair that has an unstable index (equal to 0 or \<open>reps - 1\<close>, or within the outer
  10 samples of either tail). Under the filter that the module installs at import these
  calls show nothing to the caller; once a caller has replaced the filter by one that shows
  warnings, exactly those messages appear. Unless the filter turns warnings into errors,
  no warning aborts \<^verbatim>\<open>bootstrap\<close> or \<^verbatim>\<open>bootstrap_contrast\<close>.
\<close>

theorem stability_warning_policy:
  "(bootstrap E data statfunction smoothboot alpha reps w = Inr (r, w') \<longrightarrow>
      (wfilter w = module_filter \<longrightarrow> shown w' = shown w)
    \<and> (wfilter w = Always \<longrightarrow>
         shown w' = shown w @ pair_warning reps (pct_low_high_indices r)
                            @ pair_warning reps (bca_low_high_indices r)))
   \<and> (bootstrap_contrast E tbl idx statfunction smoothboot alpha reps w = Inr (c, v') \<longrightarrow>
      (wfilter w = module_filter \<longrightarrow> shown v' = shown w)
    \<and> (wfilter w = Always \<longrightarrow>
         shown v' = shown w @ pair_warning reps (pct_low_high_indices c)
                            @ pair_warning reps (bca_low_high_indices c)))
   \<and> (pair_warning reps ind \<noteq> [] \<longleftrightarrow> unstable reps (fst ind) \<or> unstable reps (snd ind))
   \<and> (wfilter w \<noteq> Error
        \<and> (\<forall>a. kde_fit E a \<noteq> Some UserWarning)
        \<and> (\<forall>d al st f os n. bca_avals E d al st f os n \<noteq> Inl UserWarning)
        \<and> (\<forall>x y. ttest_ind E x y \<noteq> Inl UserWarning)
        \<and> (\<forall>x y. mannwhitneyu E x y \<noteq> Inl UserWarning) \<longrightarrow>
      bootstrap E data statfunction smoothboot alpha reps w \<noteq> Inl UserWarning
      \<and> bootstrap_contrast E tbl idx statfunction smoothboot alpha reps w \<noteq> Inl UserWarning)"
proof -
  have 1: "(wfilter w = module_filter \<longrightarrow> shown w' = shown w)
    \<and> (wfilter w = Always \<longrightarrow>
         shown w' = shown w @ pair_warning reps (pct_low_high_indices r)
                            @ pair_warning reps (bca_low_high_indices r))"
    if "bootstrap E data statfunction smoothboot alpha reps w = Inr (r, w')"
  proof -
    from that obtain boots w1 bc where
      sb: "sb_bootstrap E data (default_mean E statfunction) reps smoothboot w = Inr (boots, w1)"
      and sw: "stability_warnings reps (pct_low_high E reps (two_sided E alpha)) bc w1 = Inr w'"
      and p: "pct_low_high_indices r = pct_low_high E reps (two_sided E alpha)"
      and b: "bca_low_high_indices r = bc"
      by (rule bootstrap_cases)
    from sb_bootstrap_frame [OF sb] stability_warnings_shown [OF sw] show ?thesis
      unfolding p b module_filter_def by simp
  qed
  have 2: "(wfilter w = module_filter \<longrightarrow> shown v' = shown w)
    \<and> (wfilter w = Always \<longrightarrow>
         shown v' = shown w @ pair_warning reps (pct_low_high_indices c)
                            @ pair_warning reps (bca_low_high_indices c))"
    if "bootstrap_contrast E tbl idx statfunction smoothboot alpha reps w = Inr (c, v')"
  proof -
    from that obtain ra ea rs w1 es w2 bc where
      b1: "sb_bootstrap E ra (default_mean E statfunction) reps smoothboot w = Inr (rs, w1)"
      and b2: "sb_bootstrap E ea (default_mean E statfunction) reps smoothboot w1 = Inr (es, w2)"
      and sw: "stability_warnings reps (pct_low_high E reps (two_sided E alpha)) bc w2 = Inr v'"
      and p: "pct_low_high_indices c = pct_low_high E reps (two_sided E alpha)"
      and b: "bca_low_high_indices c = bc"
      by (rule bootstrap_contrast_cases)
    from sb_bootstrap_frame [OF b1] sb_bootstrap_frame [OF b2] stability_warnings_shown [OF sw]
    show ?thesis
      unfolding p b module_filter_def by simp
  qed
  have 3: "bootstrap E data statfunction smoothboot alpha reps w \<noteq> Inl UserWarning
      \<and> bootstrap_contrast E tbl idx statfunction smoothboot alpha reps w \<noteq> Inl UserWarning"
    if "wfilter w \<noteq> Error" "\<forall>a. kde_fit E a \<noteq> Some UserWarning"
      "\<forall>d al st f os n. bca_avals E d al st f os n \<noteq> Inl UserWarning"
      "\<forall>x y. ttest_ind E x y \<noteq> Inl UserWarning" "\<forall>x y. mannwhitneyu E x y \<noteq> Inl UserWarning"
    using bootstrap_no_UserWarning [OF that(1,2,3)] bootstrap_contrast_no_UserWarning [OF that]
    by simp
  show ?thesis
    apply (intro conjI impI)
    subgoal using 1 by blast
    subgoal using 1 by blast
    subgoal using 2 by blast
    subgoal using 2 by blast
    subgoal by (rule pair_warning_iff)
    subgoal using 3 by blast
    subgoal using 3 by blast
    done
qed

lemma demo_always_boot:
  "sb_bootstrap exact_env [Fin 0, Fin 2] (default_mean exact_env None) 2 False demo_world_always
     = Inr ([Fin 0, Fin 2], demo_world_always\<lparr>cursor := 4\<rparr>)"
  by (simp add: sb_bootstrap_resample resample_at_def demo_mean demo_world_always_def
      demo_world2_def upt_conv_Cons)

lemma exact_bootstrap_run:
  assumes sb: "sb_bootstrap exact_env data (default_mean exact_env None) reps False w = Inr (boots, w1)"
    and srt: "sort boots = ds"
    and pct: "pct_low_high exact_env reps (two_sided exact_env alpha) = (l, h)"
    and sw: "stability_warnings reps (l, h) (l, h) w1 = Inr w2"
    and ix: "np_index ds l = Inr pl" "np_index ds h = Inr ph"
  shows "bootstrap exact_env data None False alpha reps w =
     Inr (\<lparr>summary = default_mean exact_env None data, bootstrap_reps = reps,
           pct_ci_low = pl, pct_ci_high = ph, bca_ci_low = pl, bca_ci_high = ph,
           pct_low_high_indices = (l, h), bca_low_high_indices = (l, h), stat_array = ds\<rparr>, w2)"
proof -
  let ?al = "two_sided exact_env alpha"
  have bc: "bca exact_env data ?al (sort boots) (default_mean exact_env None) (default_mean exact_env None data) reps
      = Inr (l, h)"
    unfolding exact_bca pct ..
  have sw': "stability_warnings reps (pct_low_high exact_env reps ?al) (l, h) w1 = Inr w2"
    unfolding pct by (rule sw)
  have i1: "np_index (sort boots) (fst (pct_low_high exact_env reps ?al)) = Inr pl"
    unfolding pct srt using ix by simp
  have i2: "np_index (sort boots) (snd (pct_low_high exact_env reps ?al)) = Inr ph"
    unfolding pct srt using ix by simp
  have i3: "np_index (sort boots) (fst (l, h)) = Inr pl"
    unfolding srt using ix by simp
  have i4: "np_index (sort boots) (snd (l, h)) = Inr ph"
    unfolding srt using ix by simp
  note st = bootstrap_steps [OF sb bc sw' i1 i2 i3 i4]
  show ?thesis
    using st [unfolded pct srt] by simp
qed

lemma demo_boot_run:
  "bootstrap exact_env [Fin 0, Fin 2] None False (Fin (5 / 100)) 2 demo_world2
     = Inr (demo_boot_result, demo_world2\<lparr>cursor := 4\<rparr>)"
proof -
  have srt: "sort [Fin 0, Fin 2] = [Fin 0, Fin 2]" by (simp add: less_eq_npfloat_def)
  have sw: "stability_warnings 2 (0, 1) (0, 1) (demo_world2\<lparr>cursor := 4\<rparr>) = Inr (demo_world2\<lparr>cursor := 4\<rparr>)"
    by (rule stability_warnings_Ignore) (simp add: demo_world2_def module_filter_def)
  have ix: "np_index [Fin 0, Fin 2] 0 = Inr (Fin 0)" "np_index [Fin 0, Fin 2] 1 = Inr (Fin 2)"
    by (simp_all add: np_index_def)
  show ?thesis
    unfolding demo_boot_result_def
    using exact_bootstrap_run [OF demo2_boot_a srt exact_pct_2 sw ix]
    by (simp add: demo_mean)
qed

lemma demo_boot_run_always:
  "bootstrap exact_env [Fin 0, Fin 2] None False (Fin (5 / 100)) 2 demo_world_always
     = Inr (demo_boot_result, demo_world_always\<lparr>cursor := 4, shown := [extremal_msg, extremal_msg]\<rparr>)"
proof -
  have srt: "sort [Fin 0, Fin 2] = [Fin 0, Fin 2]" by (simp add: less_eq_npfloat_def)
  have sw: "stability_warnings 2 (0, 1) (0, 1) (demo_world_always\<lparr>cursor := 4\<rparr>)
      = Inr (demo_world_always\<lparr>cursor := 4, shown := [extremal_msg, extremal_msg]\<rparr>)"
    by (simp add: stability_warnings_Always pair_warning_def demo_world_always_def demo_world2_def)
  have ix: "np_index [Fin 0, Fin 2] 0 = Inr (Fin 0)" "np_index [Fin 0, Fin 2] 1 = Inr (Fin 2)"
    by (simp_all add: np_index_def)
  show ?thesis
    unfolding demo_boot_result_def
    using exact_bootstrap_run [OF demo_always_boot srt exact_pct_2 sw ix]
    by (simp add: demo_mean)
qed

theorem stability_warning_policy_witness:
  "bootstrap exact_env [Fin 0, Fin 2] None False (Fin (5 / 100)) 2 demo_world2
     = Inr (demo_boot_result, demo_world2\<lparr>cursor := 4\<rparr>)
   \<and> wfilter demo_world2 = module_filter
   \<and> shown (demo_world2\<lparr>cursor := 4\<rparr>) = shown demo_world2
   \<and> bootstrap exact_env [Fin 0, Fin 2] None False (Fin (5 / 100)) 2 demo_world_always
     = Inr (demo_boot_result, demo_world_always\<lparr>cursor := 4, shown := [extremal_msg, extremal_msg]\<rparr>)
   \<and> wfilter demo_world_always = Always
   \<and> shown (demo_world_always\<lparr>cursor := 4, shown := [extremal_msg, extremal_msg]\<rparr>)
       = shown demo_world_always @ pair_warning 2 (0, 1) @ pair_warning 2 (0, 1)
   \<and> pair_warning 2 (0, 1) \<noteq> [] \<and> unstable 2 (fst (0, 1))
   \<and> bootstrap_contrast exact_env demo_table (Some [KStr ''a'', KStr ''b'']) None False (Fin (5 / 100)) 2
        demo_world2 = Inr (demo_result, demo_world2\<lparr>cursor := 8\<rparr>)
   \<and> shown (demo_world2\<lparr>cursor := 8\<rparr>) = shown demo_world2"
proof -
  have f: "wfilter demo_world2 = module_filter" "wfilter demo_world_always = Always"
    by (simp_all add: demo_world2_def demo_world_always_def)
  note A = stability_warning_policy [where E = exact_env and data = "[Fin 0, Fin 2]"
      and statfunction = None and smoothboot = False and alpha = "Fin (5 / 100)" and reps = 2
      and w = demo_world2 and r = demo_boot_result and w' = "demo_world2\<lparr>cursor := 4\<rparr>"
      and tbl = demo_table and idx = "Some [KStr ''a'', KStr ''b'']" and c = demo_result
      and v' = "demo_world2\<lparr>cursor := 8\<rparr>" and ind = "(0, 1)"]
  note B = stability_warning_policy [where E = exact_env and data = "[Fin 0, Fin 2]"
      and statfunction = None and smoothboot = False and alpha = "Fin (5 / 100)" and reps = 2
      and w = demo_world_always and r = demo_boot_result
      and w' = "demo_world_always\<lparr>cursor := 4, shown := [extremal_msg, extremal_msg]\<rparr>"]
  have 1: "shown (demo_world2\<lparr>cursor := 4\<rparr>) = shown demo_world2"
    using A [THEN conjunct1] demo_boot_run f(1) by blast
  have 2: "shown (demo_world_always\<lparr>cursor := 4, shown := [extremal_msg, extremal_msg]\<rparr>)
       = shown demo_world_always @ pair_warning 2 (pct_low_high_indices demo_boot_result)
           @ pair_warning 2 (bca_low_high_indices demo_boot_result)"
    using B [THEN conjunct1] demo_boot_run_always f(2) by blast
  have 3: "shown (demo_world2\<lparr>cursor := 8\<rparr>) = shown demo_world2"
    using A [THEN conjunct2, THEN conjunct1] demo2_contrast f(1) by blast
  have 4: "pair_warning 2 (0, 1) \<noteq> [] \<and> unstable 2 (fst (0, 1))"
    using A [THEN conjunct2, THEN conjunct2, THEN conjunct1]
    by (simp add: unstable_def)
  have i: "pct_low_high_indices demo_boot_result = (0, 1)" "bca_low_high_indices demo_boot_result = (0, 1)"
    by (simp_all add: demo_boot_result_def)
  show ?thesis
    using 1 2 [unfolded i] 3 4 [THEN conjunct1] 4 [THEN conjunct2] f
      demo_boot_run demo_boot_run_always demo2_contrast
    by (intro conjI)
qed

text \<open>
  Under the module's own filter a run that selects the indices 0 and \<open>reps - 1\<close> shows
  the caller no warning.
\<close>

theorem stability_warning_policy_counterexample:
  "bootstrap exact_env [Fin 0, Fin 2] None False (Fin (5 / 100)) 2 demo_world2
     = Inr (demo_boot_result, demo_world2\<lparr>cursor := 4\<rparr>)
   \<and> wfilter demo_world2 = module_filter
   \<and> pct_low_high_indices demo_boot_result = (0, 1)
   \<and> fst (pct_low_high_indices demo_boot_result) = 0
   \<and> snd (pct_low_high_indices demo_boot_result) = 2 - 1
   \<and> shown demo_world2 = []
   \<and> shown (demo_world2\<lparr>cursor := 4\<rparr>) = []"
  using demo_boot_run
  by (simp add: demo_boot_result_def demo_world2_def)

section \<open>The paired contrast\<close>

lemma pairedcontrast_stats_cases:
  assumes "pairedcontrast_stats E plotPoints statfunction smoothboot reps w = Inr (r, w')"
  obtains first bootsDelta t where
    "np_index (map (\<lambda>row. fsub E (snd row) (fst row)) plotPoints) 0 = Inr first"
    "bootstrap E (map (\<lambda>row. fsub E (snd row) (fst row)) plotPoints) (Some (default_mean E statfunction))
       smoothboot (Fin (rnd E (5 / 100))) reps w = Inr (bootsDelta, w')"
    "ttest_1samp E (map (\<lambda>row. fsub E (snd row) (fst row)) plotPoints) (Fin 0) = Inr t"
    "r = boot_result.extend bootsDelta \<lparr>ttest_pval = snd t\<rparr>"
  using assms unfolding pairedcontrast_stats_def Let_def
  by (auto split: sum.splits prod.splits)

lemma extend_fields:
  "summary (boot_result.extend b \<lparr>ttest_pval = p\<rparr>) = summary b"
  "stat_array (boot_result.extend b \<lparr>ttest_pval = p\<rparr>) = stat_array b"
  "ttest_pval (boot_result.extend b \<lparr>ttest_pval = p\<rparr>) = p"
  "pct_ci_low (boot_result.extend b \<lparr>ttest_pval = p\<rparr>) = pct_ci_low b"
  "pct_ci_high (boot_result.extend b \<lparr>ttest_pval = p\<rparr>) = pct_ci_high b"
  "bca_ci_low (boot_result.extend b \<lparr>ttest_pval = p\<rparr>) = bca_ci_low b"
  "bca_ci_high (boot_result.extend b \<lparr>ttest_pval = p\<rparr>) = bca_ci_high b"
  by (simp_all add: boot_result.defs)

lemma resample_at_map:
  "resample_at w j (map f xs) = map f (resample_at w j xs)"
proof (cases "xs = []")
  case True
  then show ?thesis by (simp add: resample_at_def)
next
  case False
  then have "0 < length xs" by simp
  then show ?thesis
    unfolding resample_at_def by (simp add: comp_def)
qed

lemma default_mean_Some [simp]: "default_mean E (Some f) = f"
  by (simp add: default_mean_def)

text \<open>
  Claim C6. Let \<open>statistic\<close> be the function the caller passed, or the library's mean when
  the caller passed none. Whenever the paired contrast returns for a table of aligned
  before and after values, the deltas are \<open>after - before\<close> row by row, the distribution
  is the sorted output of one run of the resampler with \<open>statistic\<close> on that delta
  sequence (without smoothing: replicate \<open>j\<close> is \<open>statistic\<close> of the deltas of the \<open>j\<close>-th
  resample of the subjects, so a subject's two values stay together), the summary is
  \<open>statistic\<close> of the deltas, and \<open>ttest_pval\<close> is the p-value of the library's one-sample
  t-test of the deltas against mean 0.
\<close>

theorem paired_contrast_deltas:
  assumes run: "pairedcontrast_stats E plotPoints statfunction smoothboot reps w = Inr (r, w')"
    and stat: "statistic = (case statfunction of None \<Rightarrow> np_mean E | Some f \<Rightarrow> f)"
  shows "(\<exists>boots w1. sb_bootstrap E (map (\<lambda>row. fsub E (snd row) (fst row)) plotPoints)
              statistic reps smoothboot w = Inr (boots, w1)
            \<and> stat_array r = sort boots \<and> length boots = nat reps)
    \<and> (\<not> smoothboot \<longrightarrow>
          stat_array r = sort (map (\<lambda>j. statistic
              (map (\<lambda>row. fsub E (snd row) (fst row)) (resample_at w j plotPoints))) [0..<nat reps]))
    \<and> summary r = statistic (map (\<lambda>row. fsub E (snd row) (fst row)) plotPoints)
    \<and> (\<exists>t. ttest_1samp E (map (\<lambda>row. fsub E (snd row) (fst row)) plotPoints) (Fin 0) = Inr t
            \<and> ttest_pval r = snd t)"
proof -
  let ?d = "map (\<lambda>row. fsub E (snd row) (fst row)) plotPoints"
  have sf: "default_mean E statfunction = statistic"
    unfolding stat default_mean_def ..
  from run obtain first bootsDelta t where
    f: "np_index ?d 0 = Inr first"
    and b: "bootstrap E ?d (Some statistic) smoothboot (Fin (rnd E (5 / 100))) reps w = Inr (bootsDelta, w')"
    and t: "ttest_1samp E ?d (Fin 0) = Inr t"
    and r: "r = boot_result.extend bootsDelta \<lparr>ttest_pval = snd t\<rparr>"
    unfolding sf [symmetric] by (rule pairedcontrast_stats_cases)
  from b obtain boots w1 where
    sb: "sb_bootstrap E ?d statistic reps smoothboot w = Inr (boots, w1)"
    and su: "summary bootsDelta = statistic ?d"
    and sa: "stat_array bootsDelta = sort boots"
    by (rule bootstrap_cases) simp
  have ne: "?d \<noteq> []" using f by (auto simp: np_index_def)
  have ns: "stat_array r = sort (map (\<lambda>j. statistic (map (\<lambda>row. fsub E (snd row) (fst row))
              (resample_at w j plotPoints))) [0..<nat reps])" if "\<not> smoothboot"
    using sb that unfolding r extend_fields sa
    by (simp add: sb_bootstrap_resample [OF ne] resample_at_map)
  have "stat_array r = sort boots" "summary r = statistic ?d" "ttest_pval r = snd t"
    unfolding r extend_fields by (simp_all add: su sa)
  with sb sb_bootstrap_length [OF sb] t ns show ?thesis by blast
qed

lemma demo_pairs_boot:
  "sb_bootstrap exact_env [Fin 1, Fin 3] (default_mean exact_env None) 2 False demo_world2
     = Inr ([Fin 1, Fin 3], demo_world2\<lparr>cursor := 4\<rparr>)"
  by (simp add: sb_bootstrap_resample resample_at_def demo_mean demo_world2_def upt_conv_Cons)

lemma demo_pairs_sum_boot:
  "sb_bootstrap exact_env [Fin 1, Fin 3] array_sum 2 False demo_world2
     = Inr ([Fin 2, Fin 6], demo_world2\<lparr>cursor := 4\<rparr>)"
  by (simp add: sb_bootstrap_resample resample_at_def sum_pair demo_world2_def upt_conv_Cons)

lemma demo_pairs_run:
  assumes sb: "sb_bootstrap exact_env [Fin 1, Fin 3] f 2 False demo_world2
     = Inr ([lo, hi], demo_world2\<lparr>cursor := 4\<rparr>)"
    and srt: "sort [lo, hi] = [lo, hi]"
  shows "bootstrap exact_env [Fin 1, Fin 3] (Some f) False (Fin (5 / 100)) 2 demo_world2
     = Inr (\<lparr>summary = f [Fin 1, Fin 3], bootstrap_reps = 2, pct_ci_low = lo, pct_ci_high = hi,
      bca_ci_low = lo, bca_ci_high = hi,
      pct_low_high_indices = (0, 1), bca_low_high_indices = (0, 1),
      stat_array = [lo, hi]\<rparr>, demo_world2\<lparr>cursor := 4\<rparr>)"
proof -
  let ?al = "two_sided exact_env (Fin (5 / 100))"
  have sb: "sb_bootstrap exact_env [Fin 1, Fin 3] (default_mean exact_env (Some f)) 2 False demo_world2
     = Inr ([lo, hi], demo_world2\<lparr>cursor := 4\<rparr>)"
    unfolding default_mean_Some by (rule sb)
  have bc: "bca exact_env [Fin 1, Fin 3] ?al (sort [lo, hi]) (default_mean exact_env (Some f))
      (default_mean exact_env (Some f) [Fin 1, Fin 3]) 2 = Inr (0, 1)"
    unfolding exact_bca exact_pct_2 ..
  have sw: "stability_warnings 2 (pct_low_high exact_env 2 ?al) (0, 1) (demo_world2\<lparr>cursor := 4\<rparr>)
      = Inr (demo_world2\<lparr>cursor := 4\<rparr>)"
    by (rule stability_warnings_Ignore) (simp add: demo_world2_def module_filter_def)
  have i1: "np_index (sort [lo, hi]) (fst (pct_low_high exact_env 2 ?al)) = Inr lo"
    unfolding exact_pct_2 srt by (simp add: np_index_def)
  have i2: "np_index (sort [lo, hi]) (snd (pct_low_high exact_env 2 ?al)) = Inr hi"
    unfolding exact_pct_2 srt by (simp add: np_index_def)
  have i3: "np_index (sort [lo, hi]) (fst (0, 1)) = Inr lo"
    unfolding srt by (simp add: np_index_def)
  have i4: "np_index (sort [lo, hi]) (snd (0, 1)) = Inr hi"
    unfolding srt by (simp add: np_index_def)
  note st = bootstrap_steps [OF sb bc sw i1 i2 i3 i4]
  show ?thesis
    using st [unfolded exact_pct_2 srt default_mean_Some] by simp
qed

lemma demo_pairs_deltas:
  "map (\<lambda>row. fsub exact_env (snd row) (fst row)) demo_pairs = [Fin 1, Fin 3]"
  by (simp add: demo_pairs_def exact_fsub)

lemma demo_pairs_ttest: "ttest_1samp exact_env [Fin 1, Fin 3] (Fin 0) = Inr (Fin 0, Fin 1)"
  by (simp add: exact_env_def)

lemma demo_paired_run:
  "pairedcontrast_stats exact_env demo_pairs None False 2 demo_world2
     = Inr (demo_paired_result, demo_world2\<lparr>cursor := 4\<rparr>)"
proof -
  have a: "Fin (rnd exact_env (5 / 100)) = Fin (5 / 100)" by (simp add: exact_env_def)
  have srt: "sort [Fin 1, Fin 3] = [Fin 1, Fin 3]" by (simp add: less_eq_npfloat_def)
  note b = demo_pairs_run [OF demo_pairs_boot srt]
  show ?thesis
    unfolding pairedcontrast_stats_def Let_def demo_pairs_deltas a b demo_pairs_ttest
      demo_paired_result_def
    by (simp add: np_index_def boot_result.defs demo_mean)
qed

lemma demo_paired_sum_run:
  "pairedcontrast_stats exact_env demo_pairs (Some array_sum) False 2 demo_world2
     = Inr (demo_paired_sum_result, demo_world2\<lparr>cursor := 4\<rparr>)"
proof -
  have a: "Fin (rnd exact_env (5 / 100)) = Fin (5 / 100)" by (simp add: exact_env_def)
  have srt: "sort [Fin 2, Fin 6] = [Fin 2, Fin 6]" by (simp add: less_eq_npfloat_def)
  note b = demo_pairs_run [OF demo_pairs_sum_boot srt]
  show ?thesis
    unfolding pairedcontrast_stats_def Let_def demo_pairs_deltas a default_mean_Some b
      demo_pairs_ttest demo_paired_sum_result_def
    by (simp add: np_index_def boot_result.defs sum_pair)
qed

theorem paired_contrast_deltas_witness:
  "pairedcontrast_stats exact_env demo_pairs (Some array_sum) False 2 demo_world2
     = Inr (demo_paired_sum_result, demo_world2\<lparr>cursor := 4\<rparr>)
   \<and> map (\<lambda>row. fsub exact_env (snd row) (fst row)) demo_pairs = [Fin 1, Fin 3]
   \<and> summary demo_paired_sum_result = array_sum [Fin 1, Fin 3]
   \<and> summary demo_paired_sum_result = Fin 4
   \<and> stat_array demo_paired_sum_result
       = sort (map (\<lambda>j. array_sum (map (\<lambda>row. fsub exact_env (snd row) (fst row))
                 (resample_at demo_world2 j demo_pairs))) [0..<nat 2])
   \<and> stat_array demo_paired_sum_result = [Fin 2, Fin 6]
   \<and> ttest_1samp exact_env [Fin 1, Fin 3] (Fin 0) = Inr (Fin 0, Fin 1)
   \<and> ttest_pval demo_paired_sum_result = Fin 1
   \<and> pairedcontrast_stats exact_env demo_pairs None False 2 demo_world2
     = Inr (demo_paired_result, demo_world2\<lparr>cursor := 4\<rparr>)
   \<and> summary demo_paired_result = np_mean exact_env [Fin 1, Fin 3]
   \<and> summary demo_paired_result = Fin 2"
proof -
  note d = demo_pairs_deltas
  note T = paired_contrast_deltas [OF demo_paired_sum_run, of array_sum, unfolded d]
  have st: "array_sum = (case Some array_sum of None \<Rightarrow> np_mean exact_env | Some f \<Rightarrow> f)"
    by simp
  have 1: "stat_array demo_paired_sum_result
       = sort (map (\<lambda>j. array_sum (map (\<lambda>row. fsub exact_env (snd row) (fst row))
                 (resample_at demo_world2 j demo_pairs))) [0..<nat 2])"
    using T [OF st, THEN conjunct2, THEN conjunct1] by simp
  have 2: "summary demo_paired_sum_result = array_sum [Fin 1, Fin 3]"
    using T [OF st, THEN conjunct2, THEN conjunct2, THEN conjunct1] .
  have 3: "ttest_pval demo_paired_sum_result = Fin 1"
    using T [OF st, THEN conjunct2, THEN conjunct2, THEN conjunct2] demo_pairs_ttest by auto
  have sm: "np_mean exact_env = (case None of None \<Rightarrow> np_mean exact_env | Some f \<Rightarrow> f)"
    by simp
  have 4: "summary demo_paired_result = np_mean exact_env [Fin 1, Fin 3]"
    using paired_contrast_deltas [OF demo_paired_run sm, unfolded d, THEN conjunct2, THEN conjunct2,
        THEN conjunct1] .
  have v: "summary demo_paired_sum_result = Fin 4" "stat_array demo_paired_sum_result = [Fin 2, Fin 6]"
    "summary demo_paired_result = Fin 2"
    by (simp_all add: demo_paired_sum_result_def demo_paired_result_def)
  show ?thesis
    using demo_paired_sum_run d 1 2 3 4 v demo_pairs_ttest demo_paired_run by (intro conjI)
qed

end
